theory Spec2Isabelle
  imports Complex_Main "HOL-Library.Word"
begin

unbundle bit_operations_syntax

section \<open>JavaScript numbers\<close>

text \<open>
  The library computes with JavaScript numbers.  They are modelled by the type
  \<open>number\<close>: a finite value, one of the two infinities, or not-a-number.  Finite
  arithmetic is exact real arithmetic: rounding, overflow to an infinity and the sign of
  a zero are not represented.  The one exception is \<open>AngRound\<close>, whose purpose is the
  rounding of a difference; there the rounding is modelled (\<open>round_grid\<close> below).
  The special values follow IEEE 754 as JavaScript
  prescribes them: not-a-number propagates through every operation and fails every
  comparison, a non-zero finite value divided by zero is an infinity, \<open>0 / 0\<close> and
  \<open>\<infinity> - \<infinity>\<close> are not-a-number, the square root of a negative value is
  not-a-number.  Where a zero divisor decides the sign of an infinity, the zero counts
  as positive.

  Reading a missing array element or an unset object field gives \<open>undefined\<close> in
  JavaScript; every such read in this library feeds arithmetic or a comparison, where
  \<open>undefined\<close> converts to not-a-number, so \<open>NaN\<close> stands for it.
\<close>

datatype number = Fin real | PInf | NInf | NaN

instantiation number :: "{plus, minus, uminus, times, divide, abs, ord}"
begin

fun plus_number :: "number \<Rightarrow> number \<Rightarrow> number" where
  "plus_number NaN y = NaN"
| "plus_number x NaN = NaN"
| "plus_number (Fin a) (Fin b) = Fin (a + b)"
| "plus_number PInf NInf = NaN"
| "plus_number NInf PInf = NaN"
| "plus_number PInf y = PInf"
| "plus_number x PInf = PInf"
| "plus_number NInf y = NInf"
| "plus_number x NInf = NInf"

fun uminus_number :: "number \<Rightarrow> number" where
  "uminus_number (Fin a) = Fin (- a)"
| "uminus_number PInf = NInf"
| "uminus_number NInf = PInf"
| "uminus_number NaN = NaN"

definition minus_number :: "number \<Rightarrow> number \<Rightarrow> number" where
  "minus_number x y = x + (- y)"

fun times_number :: "number \<Rightarrow> number \<Rightarrow> number" where
  "times_number NaN y = NaN"
| "times_number x NaN = NaN"
| "times_number (Fin a) (Fin b) = Fin (a * b)"
| "times_number (Fin a) PInf = (if a = 0 then NaN else if 0 < a then PInf else NInf)"
| "times_number (Fin a) NInf = (if a = 0 then NaN else if 0 < a then NInf else PInf)"
| "times_number PInf (Fin b) = (if b = 0 then NaN else if 0 < b then PInf else NInf)"
| "times_number NInf (Fin b) = (if b = 0 then NaN else if 0 < b then NInf else PInf)"
| "times_number PInf PInf = PInf"
| "times_number PInf NInf = NInf"
| "times_number NInf PInf = NInf"
| "times_number NInf NInf = PInf"

fun divide_number :: "number \<Rightarrow> number \<Rightarrow> number" where
  "divide_number NaN y = NaN"
| "divide_number x NaN = NaN"
| "divide_number (Fin a) (Fin b) =
     (if b = 0 then (if a = 0 then NaN else if 0 < a then PInf else NInf)
      else Fin (a / b))"
| "divide_number (Fin a) PInf = Fin 0"
| "divide_number (Fin a) NInf = Fin 0"
| "divide_number PInf (Fin b) = (if 0 \<le> b then PInf else NInf)"
| "divide_number NInf (Fin b) = (if 0 \<le> b then NInf else PInf)"
| "divide_number PInf y = NaN"
| "divide_number NInf y = NaN"

fun abs_number :: "number \<Rightarrow> number" where
  "abs_number (Fin a) = Fin \<bar>a\<bar>"
| "abs_number PInf = PInf"
| "abs_number NInf = PInf"
| "abs_number NaN = NaN"

fun less_number :: "number \<Rightarrow> number \<Rightarrow> bool" where
  "less_number NaN y = False"
| "less_number x NaN = False"
| "less_number (Fin a) (Fin b) = (a < b)"
| "less_number x PInf = (x \<noteq> PInf)"
| "less_number NInf y = (y \<noteq> NInf)"
| "less_number x y = False"

fun less_eq_number :: "number \<Rightarrow> number \<Rightarrow> bool" where
  "less_eq_number NaN y = False"
| "less_eq_number x NaN = False"
| "less_eq_number (Fin a) (Fin b) = (a \<le> b)"
| "less_eq_number x PInf = True"
| "less_eq_number NInf y = True"
| "less_eq_number x y = False"

instance ..

end

instantiation number :: inverse
begin

definition inverse_number :: "number \<Rightarrow> number" where
  "inverse_number x = divide (Fin 1) x"

instance ..

end

text \<open>
  \<open>x == y\<close> on numbers: not-a-number equals nothing, itself included.  \<open>x != y\<close> is
  its negation.
\<close>

fun eqn :: "number \<Rightarrow> number \<Rightarrow> bool" where
  "eqn NaN y = False"
| "eqn x NaN = False"
| "eqn x y = (x = y)"

text \<open>A number used as a condition (\<open>a ? a : 1\<close>): zero and not-a-number are false.\<close>

fun truthy :: "number \<Rightarrow> bool" where
  "truthy NaN = False"
| "truthy (Fin a) = (a \<noteq> 0)"
| "truthy x = True"

fun isFinite :: "number \<Rightarrow> bool" where
  "isFinite (Fin a) = True"
| "isFinite x = False"

subsection \<open>The functions of \<open>Math\<close>\<close>

fun Math_sin :: "number \<Rightarrow> number" where
  "Math_sin (Fin a) = Fin (sin a)"
| "Math_sin x = NaN"

fun Math_cos :: "number \<Rightarrow> number" where
  "Math_cos (Fin a) = Fin (cos a)"
| "Math_cos x = NaN"

fun Math_sqrt :: "number \<Rightarrow> number" where
  "Math_sqrt (Fin a) = (if a < 0 then NaN else Fin (sqrt a))"
| "Math_sqrt PInf = PInf"
| "Math_sqrt x = NaN"

fun Math_atan :: "number \<Rightarrow> number" where
  "Math_atan (Fin a) = Fin (arctan a)"
| "Math_atan PInf = Fin (pi / 2)"
| "Math_atan NInf = Fin (- (pi / 2))"
| "Math_atan NaN = NaN"

fun Math_log :: "number \<Rightarrow> number" where
  "Math_log (Fin a) = (if a < 0 then NaN else if a = 0 then NInf else Fin (ln a))"
| "Math_log PInf = PInf"
| "Math_log x = NaN"

fun Math_floor :: "number \<Rightarrow> number" where
  "Math_floor (Fin a) = Fin (of_int \<lfloor>a\<rfloor>)"
| "Math_floor x = x"

fun Math_max :: "number \<Rightarrow> number \<Rightarrow> number" where
  "Math_max NaN y = NaN"
| "Math_max x NaN = NaN"
| "Math_max x y = (if x \<le> y then y else x)"

fun Math_min :: "number \<Rightarrow> number \<Rightarrow> number" where
  "Math_min NaN y = NaN"
| "Math_min x NaN = NaN"
| "Math_min x y = (if x \<le> y then x else y)"

text \<open>
  \<open>Math.atan2(y, x)\<close>: the angle of the point \<open>(x, y)\<close>, in \<open>(-\<pi>, \<pi>]\<close>.  With one zero
  only, \<open>atan2(0, x)\<close> is \<open>\<pi>\<close> for every negative \<open>x\<close> (JavaScript gives \<open>-\<pi>\<close> when the
  first argument is the negative zero).  So where the library computes an azimuth from
  a negative zero and a negative cosine and reports 180, the model has -180; no
  statement below evaluates an azimuth at such a point.
\<close>

fun Math_atan2 :: "number \<Rightarrow> number \<Rightarrow> number" where
  "Math_atan2 NaN x = NaN"
| "Math_atan2 y NaN = NaN"
| "Math_atan2 (Fin y) (Fin x) =
     (if 0 < x then Fin (arctan (y / x))
      else if x < 0 then (if 0 \<le> y then Fin (arctan (y / x) + pi) else Fin (arctan (y / x) - pi))
      else if 0 < y then Fin (pi / 2)
      else if y < 0 then Fin (- (pi / 2))
      else Fin 0)"
| "Math_atan2 (Fin y) PInf = Fin 0"
| "Math_atan2 (Fin y) NInf = (if 0 \<le> y then Fin pi else Fin (- pi))"
| "Math_atan2 PInf (Fin x) = Fin (pi / 2)"
| "Math_atan2 NInf (Fin x) = Fin (- (pi / 2))"
| "Math_atan2 PInf PInf = Fin (pi / 4)"
| "Math_atan2 PInf NInf = Fin (3 * pi / 4)"
| "Math_atan2 NInf PInf = Fin (- (pi / 4))"
| "Math_atan2 NInf NInf = Fin (- (3 * pi / 4))"

text \<open>
  \<open>Math.pow(x, y)\<close>, by the cases of the language definition.  A negative base has a
  real power only for an integer exponent.
\<close>

definition is_integer :: "real \<Rightarrow> bool" where
  "is_integer b = (of_int \<lfloor>b\<rfloor> = b)"

definition is_odd_integer :: "real \<Rightarrow> bool" where
  "is_odd_integer b = (is_integer b \<and> odd \<lfloor>b\<rfloor>)"

fun Math_pow :: "number \<Rightarrow> number \<Rightarrow> number" where
  "Math_pow x NaN = NaN"
| "Math_pow x (Fin b) =
     (if b = 0 then Fin 1
      else case x of
        NaN \<Rightarrow> NaN
      | PInf \<Rightarrow> (if 0 < b then PInf else Fin 0)
      | NInf \<Rightarrow> (if 0 < b then (if is_odd_integer b then NInf else PInf) else Fin 0)
      | Fin a \<Rightarrow>
          (if a = 0 then (if 0 < b then Fin 0 else PInf)
           else if 0 < a then Fin (a powr b)
           else if is_odd_integer b then Fin (- (\<bar>a\<bar> powr b))
           else if is_integer b then Fin (\<bar>a\<bar> powr b)
           else NaN))"
| "Math_pow NaN y = NaN"
| "Math_pow PInf PInf = PInf"
| "Math_pow PInf NInf = Fin 0"
| "Math_pow NInf PInf = PInf"
| "Math_pow NInf NInf = Fin 0"
| "Math_pow (Fin a) PInf =
     (if 1 < \<bar>a\<bar> then PInf else if \<bar>a\<bar> = 1 then NaN else Fin 0)"
| "Math_pow (Fin a) NInf =
     (if 1 < \<bar>a\<bar> then Fin 0 else if \<bar>a\<bar> = 1 then NaN else PInf)"

text \<open>
  \<open>x % y\<close>: the remainder of the division truncated towards zero; it has the sign of
  \<open>x\<close>.
\<close>

definition trunc :: "real \<Rightarrow> int" where
  "trunc r = (if 0 \<le> r then \<lfloor>r\<rfloor> else \<lceil>r\<rceil>)"

fun js_rem :: "number \<Rightarrow> number \<Rightarrow> number" where
  "js_rem NaN y = NaN"
| "js_rem x NaN = NaN"
| "js_rem PInf y = NaN"
| "js_rem NInf y = NaN"
| "js_rem (Fin a) (Fin b) = (if b = 0 then NaN else Fin (a - b * of_int (trunc (a / b))))"
| "js_rem (Fin a) y = Fin a"

subsection \<open>Arrays\<close>

text \<open>
  An array is a list; \<open>new Array(n)\<close> has \<open>n\<close> unset elements.  A read outside the
  array gives \<open>undefined\<close>; a write outside the array extends it, leaving the elements
  in between unset.
\<close>

definition new_Array :: "nat \<Rightarrow> number list" where
  "new_Array n = replicate n NaN"

definition aget :: "number list \<Rightarrow> nat \<Rightarrow> number" where
  "aget c k = (if k < length c then c ! k else NaN)"

definition aset :: "number list \<Rightarrow> nat \<Rightarrow> number \<Rightarrow> number list" where
  "aset c k v = (if k < length c then c[k := v] else c @ replicate (k - length c) NaN @ [v])"

text \<open>A block of assignments \<open>c[k1] = v1; c[k2] = v2; ...\<close> in the order written.\<close>

fun aset_all :: "number list \<Rightarrow> (nat \<times> number) list \<Rightarrow> number list" where
  "aset_all c [] = c"
| "aset_all c ((k, v) # kvs) = aset_all (aset c k v) kvs"

text \<open>
  The two exceptions the library can raise: a failed \<open>goog.asserts.assert\<close>, and the
  \<open>TypeError\<close> of indexing a field that was never set.
\<close>

datatype error = AssertionError | TypeError

definition bind_err :: "error + 'a \<Rightarrow> ('a \<Rightarrow> error + 'b) \<Rightarrow> error + 'b" where
  "bind_err r k = (case r of Inl e \<Rightarrow> Inl e | Inr x \<Rightarrow> k x)"

text \<open>
  A result object: its property names and their values.  A property the object does not
  have is \<open>None\<close>.
\<close>

type_synonym object = "string \<rightharpoonup> number"

section \<open>\<open>GeodesicMask\<close>: the capability bits\<close>

text \<open>
  The bitwise operators of JavaScript work on 32-bit integers, so a mask is a 32-bit
  word.  \<open>1 << 7 | CAP_NONE\<close> reads \<open>(1 << 7) | CAP_NONE\<close>.
\<close>

type_synonym mask = "32 word"

definition CAP_NONE :: mask where "CAP_NONE = 0"
definition CAP_C1 :: mask where "CAP_C1 = push_bit 0 1"
definition CAP_C1p :: mask where "CAP_C1p = push_bit 1 1"
definition CAP_C2 :: mask where "CAP_C2 = push_bit 2 1"
definition CAP_C3 :: mask where "CAP_C3 = push_bit 3 1"
definition CAP_C4 :: mask where "CAP_C4 = push_bit 4 1"
definition CAP_ALL :: mask where "CAP_ALL = 0x1F"
definition OUT_ALL :: mask where "OUT_ALL = 0x7F80"
definition NONE :: mask where "NONE = 0"
definition LATITUDE :: mask where "LATITUDE = push_bit 7 1 OR CAP_NONE"
definition LONGITUDE :: mask where "LONGITUDE = push_bit 8 1 OR CAP_C3"
definition AZIMUTH :: mask where "AZIMUTH = push_bit 9 1 OR CAP_NONE"
definition DISTANCE :: mask where "DISTANCE = push_bit 10 1 OR CAP_C1"
definition DISTANCE_IN :: mask where "DISTANCE_IN = push_bit 11 1 OR CAP_C1 OR CAP_C1p"
definition REDUCEDLENGTH :: mask where "REDUCEDLENGTH = push_bit 12 1 OR CAP_C1 OR CAP_C2"
definition GEODESICSCALE :: mask where "GEODESICSCALE = push_bit 13 1 OR CAP_C1 OR CAP_C2"
definition AREA :: mask where "AREA = push_bit 14 1 OR CAP_C4"
definition ALL_mask :: mask where "ALL_mask = OUT_ALL OR CAP_ALL"

lemmas mask_defs =
  CAP_NONE_def CAP_C1_def CAP_C1p_def CAP_C2_def CAP_C3_def CAP_C4_def CAP_ALL_def
  OUT_ALL_def NONE_def LATITUDE_def LONGITUDE_def AZIMUTH_def DISTANCE_def
  DISTANCE_IN_def REDUCEDLENGTH_def GEODESICSCALE_def AREA_def ALL_mask_def

section \<open>\<open>GeoMath\<close>\<close>

definition GeoMath_digits :: nat where "GeoMath_digits = 53"

definition GeoMath_epsilon :: number where
  "GeoMath_epsilon = Math_pow (Fin 0.5) (Fin 52)"

definition GeoMath_min :: number where
  "GeoMath_min = Math_pow (Fin 0.5) (Fin 1022)"

definition degree :: number where
  "degree = Fin pi / Fin 180"

definition sq :: "number \<Rightarrow> number" where
  "sq x = x * x"

definition hypot :: "number \<Rightarrow> number \<Rightarrow> number" where
  "hypot x0 y0 =
     (let x = \<bar>x0\<bar>;
          y = \<bar>y0\<bar>;
          a = Math_max x y;
          b = Math_min x y / (if truthy a then a else Fin 1)
      in a * Math_sqrt (Fin 1 + b * b))"

definition log1p :: "number \<Rightarrow> number" where
  "log1p x =
     (let y = Fin 1 + x;
          z = y - Fin 1
      in if eqn z (Fin 0) then x else x * Math_log y / z)"

definition atanh :: "number \<Rightarrow> number" where
  "atanh x =
     (let y = \<bar>x\<bar>;
          y = log1p (Fin 2 * y / (Fin 1 - y)) / Fin 2
      in if x < Fin 0 then - y else y)"

definition cbrt :: "number \<Rightarrow> number" where
  "cbrt x =
     (let y = Math_pow \<bar>x\<bar> (Fin 1 / Fin 3)
      in if x < Fin 0 then - y else y)"

text \<open>\<open>GeoMath.sum\<close>: the pair \<open>(s, t)\<close> of the sum and its error term.\<close>

definition sum_exact :: "number \<Rightarrow> number \<Rightarrow> number \<times> number" where
  "sum_exact u v =
     (let s = u + v;
          up = s - v;
          vpp = s - up;
          up = up - u;
          vpp = vpp - v
      in (s, - (up + vpp)))"

definition angNormalize :: "number \<Rightarrow> number" where
  "angNormalize x =
     (if Fin 180 \<le> x then x - Fin 360 else (if x < Fin (- 180) then x + Fin 360 else x))"

definition angNormalize2 :: "number \<Rightarrow> number" where
  "angNormalize2 x = angNormalize (js_rem x (Fin 360))"

definition angDiff :: "number \<Rightarrow> number \<Rightarrow> number" where
  "angDiff x y =
     (let d = y - x;
          yp = d + x;
          xpp = yp - d;
          yp = yp - y;
          xpp = xpp - x;
          t = xpp - yp;
          d = (if Fin 0 < (d - Fin 180) + t then d - Fin 360
               else if (d + Fin 180) + t \<le> Fin 0 then d + Fin 360
               else d)
      in d + t)"

section \<open>\<open>Accuracy\<close>: orders and tolerances\<close>

definition GEOGRAPHICLIB_GEODESIC_ORDER :: nat where
  "GEOGRAPHICLIB_GEODESIC_ORDER = 2"

definition nC1 :: nat where "nC1 = GEOGRAPHICLIB_GEODESIC_ORDER"
definition nC1p :: nat where "nC1p = GEOGRAPHICLIB_GEODESIC_ORDER"
definition nC2 :: nat where "nC2 = GEOGRAPHICLIB_GEODESIC_ORDER"
definition nA3 :: nat where "nA3 = GEOGRAPHICLIB_GEODESIC_ORDER"
definition nA3x :: nat where "nA3x = nA3"
definition nC3 :: nat where "nC3 = GEOGRAPHICLIB_GEODESIC_ORDER"
definition nC3x :: nat where "nC3x = (nC3 * (nC3 - 1)) div 2"
definition nC4 :: nat where "nC4 = GEOGRAPHICLIB_GEODESIC_ORDER"
definition nC4x :: nat where "nC4x = (nC4 * (nC4 + 1)) div 2"
definition maxit1 :: nat where "maxit1 = 20"
definition maxit2 :: nat where "maxit2 = maxit1 + GeoMath_digits + 10"
definition tiny :: number where "tiny = Math_sqrt GeoMath_min"
definition tol0 :: number where "tol0 = GeoMath_epsilon"
definition tol1 :: number where "tol1 = Fin 200 * tol0"
definition tol2 :: number where "tol2 = Math_sqrt tol0"
definition tolb :: number where "tolb = tol0 * tol2"
definition xthresh :: number where "xthresh = Fin 1000 * tol2"


section \<open>\<open>Geodesic\<close>: series and helper functions\<close>

text \<open>
  \<open>SinCosSeries(sinp, sinx, cosx, c, n)\<close>.  The order \<open>n\<close> is a count.  The index \<open>k\<close>
  starts at \<open>n\<close> or \<open>n + 1\<close> and is decremented once when \<open>n\<close> is odd and twice in each
  of the \<open>n div 2\<close> rounds of the loop, so it stays non-negative.
\<close>

fun SinCosSeries_loop ::
  "number \<Rightarrow> number list \<Rightarrow> nat \<Rightarrow> nat \<Rightarrow> number \<Rightarrow> number \<Rightarrow> number \<times> number" where
  "SinCosSeries_loop ar c 0 k y0 y1 = (y0, y1)"
| "SinCosSeries_loop ar c (Suc n) k y0 y1 =
     (let y1 = ar * y0 - y1 + aget c (k - 1);
          y0 = ar * y1 - y0 + aget c (k - 2)
      in SinCosSeries_loop ar c n (k - 2) y0 y1)"

definition SinCosSeries :: "bool \<Rightarrow> number \<Rightarrow> number \<Rightarrow> number list \<Rightarrow> nat \<Rightarrow> number" where
  "SinCosSeries sinp sinx cosx c n =
     (let k = n + (if sinp then 1 else 0);
          ar = Fin 2 * (cosx - sinx) * (cosx + sinx);
          y0 = (if odd n then aget c (k - 1) else Fin 0);
          k = (if odd n then k - 1 else k);
          y1 = Fin 0;
          (y0, y1) = SinCosSeries_loop ar c (n div 2) k y0 y1
      in if sinp then Fin 2 * sinx * cosx * y0 else cosx * (y0 - y1))"

text \<open>
  \<open>AngRound(x)\<close> computes \<open>z - (z - y)\<close> with \<open>z = 1 / 16\<close> and \<open>y = |x| < z\<close> in order to
  round \<open>y\<close>: the inner difference is rounded to a double, the outer one is then exact.
  The inner difference lies in \<open>(0, 1 / 16]\<close>.  For \<open>y \<le> 1 / 32\<close> it lies in
  \<open>[1 / 32, 1 / 16]\<close>, where the doubles are the multiples of \<open>2^(-57)\<close>; a double
  \<open>y > 1 / 32\<close> is itself a multiple of \<open>2^(-57)\<close>, and so is the difference.  So on every
  double the rounded difference is the nearest multiple of \<open>2^(-57)\<close>, a tie going to the
  even multiple, which is the double with the even significand.  \<open>round_half_even\<close>
  rounds a real to the nearest integer in that way, and \<open>round_grid\<close> rounds a finite
  number to the grid of the multiples of \<open>2^(-57)\<close>.
\<close>

definition round_half_even :: "real \<Rightarrow> int" where
  "round_half_even r =
     (let n = \<lfloor>r\<rfloor>;
          d = r - of_int n
      in if d < 1 / 2 then n
         else if 1 / 2 < d then n + 1
         else if even n then n else n + 1)"

fun round_grid :: "number \<Rightarrow> number" where
  "round_grid (Fin r) = Fin (of_int (round_half_even (r * 2 ^ 57)) / 2 ^ 57)"
| "round_grid x = x"

definition AngRound :: "number \<Rightarrow> number" where
  "AngRound x =
     (let z = Fin 1 / Fin 16;
          y = \<bar>x\<bar>;
          y = (if y < z then z - round_grid (z - y) else y)
      in if x < Fin 0 then - y else y)"

definition Astroid :: "number \<Rightarrow> number \<Rightarrow> number" where
  "Astroid x y =
     (let p = sq x;
          q = sq y;
          r = (p + q - Fin 1) / Fin 6
      in if \<not> (eqn q (Fin 0) \<and> r \<le> Fin 0) then
           (let S = p * q / Fin 4;
                r2 = sq r;
                r3 = r * r2;
                disc = S * (S + Fin 2 * r3);
                u = r;
                u = (if Fin 0 \<le> disc then
                       (let T3 = S + r3;
                            T3 = T3 + (if T3 < Fin 0 then - Math_sqrt disc else Math_sqrt disc);
                            T = cbrt T3
                        in u + (T + (if \<not> eqn T (Fin 0) then r2 / T else Fin 0)))
                     else
                       (let ang = Math_atan2 (Math_sqrt (- disc)) (- (S + r3))
                        in u + Fin 2 * r * Math_cos (ang / Fin 3)));
                v = Math_sqrt (sq u + q);
                uv = (if u < Fin 0 then q / (v - u) else u + v);
                w = (uv - q) / (Fin 2 * v)
            in uv / (Math_sqrt (uv + sq w) + w))
         else Fin 0)"

definition A1m1f :: "number \<Rightarrow> number" where
  "A1m1f eps =
     (let eps2 = sq eps;
          t = eps2 * (eps2 * (eps2 + Fin 4) + Fin 64) / Fin 256
      in (t + eps) / (Fin 1 - eps))"

definition C1f :: "number \<Rightarrow> number list \<Rightarrow> number list" where
  "C1f eps c =
     (let eps2 = sq eps;
          d = eps;
          c = aset c 1 (d * ((Fin 6 - eps2) * eps2 - Fin 16) / Fin 32);
          d = d * eps;
          c = aset c 2 (d * ((Fin 64 - Fin 9 * eps2) * eps2 - Fin 128) / Fin 2048);
          d = d * eps;
          c = aset c 3 (d * (Fin 9 * eps2 - Fin 16) / Fin 768);
          d = d * eps;
          c = aset c 4 (d * (Fin 3 * eps2 - Fin 5) / Fin 512);
          d = d * eps;
          c = aset c 5 (Fin (- 7) * d / Fin 1280);
          d = d * eps
      in aset c 6 (Fin (- 7) * d / Fin 2048))"

definition C1pf :: "number \<Rightarrow> number list \<Rightarrow> number list" where
  "C1pf eps c =
     (let eps2 = sq eps;
          d = eps;
          c = aset c 1 (d * (eps2 * (Fin 205 * eps2 - Fin 432) + Fin 768) / Fin 1536);
          d = d * eps;
          c = aset c 2 (d * (eps2 * (Fin 4005 * eps2 - Fin 4736) + Fin 3840) / Fin 12288);
          d = d * eps;
          c = aset c 3 (d * (Fin 116 - Fin 225 * eps2) / Fin 384);
          d = d * eps;
          c = aset c 4 (d * (Fin 2695 - Fin 7173 * eps2) / Fin 7680);
          d = d * eps;
          c = aset c 5 (Fin 3467 * d / Fin 7680);
          d = d * eps
      in aset c 6 (Fin 38081 * d / Fin 61440))"

definition A2m1f :: "number \<Rightarrow> number" where
  "A2m1f eps =
     (let eps2 = sq eps;
          t = eps2 * (eps2 * (Fin 25 * eps2 + Fin 36) + Fin 64) / Fin 256
      in t * (Fin 1 - eps) - eps)"

definition C2f :: "number \<Rightarrow> number list \<Rightarrow> number list" where
  "C2f eps c =
     (let eps2 = sq eps;
          d = eps;
          c = aset c 1 (d * (eps2 * (eps2 + Fin 2) + Fin 16) / Fin 32);
          d = d * eps;
          c = aset c 2 (d * (eps2 * (Fin 35 * eps2 + Fin 64) + Fin 384) / Fin 2048);
          d = d * eps;
          c = aset c 3 (d * (Fin 15 * eps2 + Fin 80) / Fin 768);
          d = d * eps;
          c = aset c 4 (d * (Fin 7 * eps2 + Fin 35) / Fin 512);
          d = d * eps;
          c = aset c 5 (Fin 63 * d / Fin 1280);
          d = d * eps
      in aset c 6 (Fin 77 * d / Fin 2048))"

section \<open>\<open>Geodesic\<close>: the ellipsoid\<close>

record geodesic =
  g_a :: number
  g_f :: number
  g_f1 :: number
  g_e2 :: number
  g_ep2 :: number
  g_n :: number
  g_b :: number
  g_c2 :: number
  g_etol2 :: number
  g_A3x :: "number list"
  g_C3x :: "number list"
  g_C4x :: "number list"

definition A3coeff :: "number \<Rightarrow> number list \<Rightarrow> number list" where
  "A3coeff n A3x = aset_all A3x
     [(0, Fin 1),
      (1, (n - Fin 1) / Fin 2),
      (2, (n * (Fin 3 * n - Fin 1) - Fin 2) / Fin 8),
      (3, ((- n - Fin 3) * n - Fin 1) / Fin 16),
      (4, (Fin (- 2) * n - Fin 3) / Fin 64),
      (5, Fin (- 3) / Fin 128)]"

definition C3coeff :: "number \<Rightarrow> number list \<Rightarrow> number list" where
  "C3coeff n C3x = aset_all C3x
     [(0, (Fin 1 - n) / Fin 4),
      (1, (Fin 1 - n * n) / Fin 8),
      (2, ((Fin 3 - n) * n + Fin 3) / Fin 64),
      (3, (Fin 2 * n + Fin 5) / Fin 128),
      (4, Fin 3 / Fin 128),
      (5, ((n - Fin 3) * n + Fin 2) / Fin 32),
      (6, ((Fin (- 3) * n - Fin 2) * n + Fin 3) / Fin 64),
      (7, (n + Fin 3) / Fin 128),
      (8, Fin 5 / Fin 256),
      (9, (n * (Fin 5 * n - Fin 9) + Fin 5) / Fin 192),
      (10, (Fin 9 - Fin 10 * n) / Fin 384),
      (11, Fin 7 / Fin 512),
      (12, (Fin 7 - Fin 14 * n) / Fin 512),
      (13, Fin 7 / Fin 512),
      (14, Fin 21 / Fin 2560)]"

definition C4coeff :: "number \<Rightarrow> number list \<Rightarrow> number list" where
  "C4coeff n C4x = aset_all C4x
     [(0, (n * (n * (n * (n * (Fin 100 * n + Fin 208) + Fin 572) + Fin 3432) - Fin 12012)
           + Fin 30030) / Fin 45045),
      (1, (n * (n * (n * (Fin 64 * n + Fin 624) - Fin 4576) + Fin 6864) - Fin 3003)
          / Fin 15015),
      (2, (n * ((Fin 14144 - Fin 10656 * n) * n - Fin 4576) - Fin 858) / Fin 45045),
      (3, ((Fin (- 224) * n - Fin 4784) * n + Fin 1573) / Fin 45045),
      (4, (Fin 1088 * n + Fin 156) / Fin 45045),
      (5, Fin 97 / Fin 15015),
      (6, (n * (n * ((Fin (- 64) * n - Fin 624) * n + Fin 4576) - Fin 6864) + Fin 3003)
          / Fin 135135),
      (7, (n * (n * (Fin 5952 * n - Fin 11648) + Fin 9152) - Fin 2574) / Fin 135135),
      (8, (n * (Fin 5792 * n + Fin 1040) - Fin 1287) / Fin 135135),
      (9, (Fin 468 - Fin 2944 * n) / Fin 135135),
      (10, Fin 1 / Fin 9009),
      (11, (n * ((Fin 4160 - Fin 1440 * n) * n - Fin 4576) + Fin 1716) / Fin 225225),
      (12, ((Fin 4992 - Fin 8448 * n) * n - Fin 1144) / Fin 225225),
      (13, (Fin 1856 * n - Fin 936) / Fin 225225),
      (14, Fin 8 / Fin 10725),
      (15, (n * (Fin 3584 * n - Fin 3328) + Fin 1144) / Fin 315315),
      (16, (Fin 1024 * n - Fin 208) / Fin 105105),
      (17, Fin (- 136) / Fin 63063),
      (18, (Fin 832 - Fin 2560 * n) / Fin 405405),
      (19, Fin (- 128) / Fin 135135),
      (20, Fin 128 / Fin 99099)]"

text \<open>
  The constructor.  The fields are computed first; then the two assertions are checked;
  then the coefficient tables are allocated with \<open>nA3x\<close>, \<open>nC3x\<close> and \<open>nC4x\<close> elements
  and filled.
\<close>

definition Geodesic :: "number \<Rightarrow> number \<Rightarrow> error + geodesic" where
  "Geodesic a f0 =
     (let f = (if f0 \<le> Fin 1 then f0 else Fin 1 / f0);
          f1 = Fin 1 - f;
          e2 = f * (Fin 2 - f);
          ep2 = e2 / sq f1;
          n = f / (Fin 2 - f);
          b = a * f1;
          c2 = (sq a + sq b *
                  (if eqn e2 (Fin 0) then Fin 1
                   else (if Fin 0 < e2 then atanh (Math_sqrt e2)
                         else Math_atan (Math_sqrt (- e2))) / Math_sqrt \<bar>e2\<bar>)) / Fin 2;
          etol2 = Fin 0.1 * tol2 /
                  Math_sqrt (Math_max (Fin 0.001) \<bar>f\<bar> *
                             Math_min (Fin 1.0) (Fin 1 - f / Fin 2) / Fin 2)
      in if \<not> (isFinite a \<and> Fin 0 < a) then Inl AssertionError
         else if \<not> (isFinite b \<and> Fin 0 < b) then Inl AssertionError
         else Inr \<lparr> g_a = a, g_f = f, g_f1 = f1, g_e2 = e2, g_ep2 = ep2, g_n = n,
                    g_b = b, g_c2 = c2, g_etol2 = etol2,
                    g_A3x = A3coeff n (new_Array nA3x),
                    g_C3x = C3coeff n (new_Array nC3x),
                    g_C4x = C4coeff n (new_Array nC4x) \<rparr>)"

fun A3f_loop :: "number \<Rightarrow> number list \<Rightarrow> nat \<Rightarrow> number \<Rightarrow> number" where
  "A3f_loop eps A3x 0 v = v"
| "A3f_loop eps A3x (Suc i) v = A3f_loop eps A3x i (eps * v + aget A3x i)"

definition A3f :: "geodesic \<Rightarrow> number \<Rightarrow> number" where
  "A3f g eps = A3f_loop eps (g_A3x g) nA3x (Fin 0)"

text \<open>
  The inner loop of \<open>C3f\<close> and \<open>C4f\<close>: \<open>for (i = ...; i; --i) t = eps * t + x[--j]\<close>.
  It returns \<open>t\<close> and the index \<open>j\<close> it stopped at.
\<close>

fun coeff_loop :: "number \<Rightarrow> number list \<Rightarrow> nat \<Rightarrow> nat \<Rightarrow> number \<Rightarrow> number \<times> nat" where
  "coeff_loop eps x 0 j t = (t, j)"
| "coeff_loop eps x (Suc i) j t = coeff_loop eps x i (j - 1) (eps * t + aget x (j - 1))"

fun C3f_rows :: "number \<Rightarrow> number list \<Rightarrow> nat \<Rightarrow> nat \<Rightarrow> number list \<Rightarrow> number list" where
  "C3f_rows eps C3x j 0 c = c"
| "C3f_rows eps C3x j (Suc k) c =
     (let (t, j) = coeff_loop eps C3x (nC3 - Suc k) j (Fin 0)
      in C3f_rows eps C3x j k (aset c (Suc k) t))"

text \<open>The second loop of \<open>C3f\<close> and \<open>C4f\<close>: \<open>for (k = 1; k < n;) { mult *= eps; c[k++] *= mult; }\<close>.\<close>

function scale_loop :: "number \<Rightarrow> nat \<Rightarrow> nat \<Rightarrow> number \<Rightarrow> number list \<Rightarrow> number list" where
  "scale_loop eps n k mult c =
     (if k < n then
        (let mult = mult * eps
         in scale_loop eps n (k + 1) mult (aset c k (aget c k * mult)))
      else c)"
  by pat_completeness auto
termination
  by (relation "measure (\<lambda>(eps, n, k, mult, c). n - k)") auto

declare scale_loop.simps [simp del]

definition C3f :: "geodesic \<Rightarrow> number \<Rightarrow> number list \<Rightarrow> number list" where
  "C3f g eps c = scale_loop eps nC3 1 (Fin 1) (C3f_rows eps (g_C3x g) nC3x (nC3 - 1) c)"

fun C4f_rows :: "number \<Rightarrow> number list \<Rightarrow> nat \<Rightarrow> nat \<Rightarrow> number list \<Rightarrow> number list" where
  "C4f_rows eps C4x j 0 c = c"
| "C4f_rows eps C4x j (Suc k) c =
     (let (t, j) = coeff_loop eps C4x (nC4 - Suc k + 1) j (Fin 0)
      in C4f_rows eps C4x j k (aset c k t))"

definition C4f :: "geodesic \<Rightarrow> number \<Rightarrow> number list \<Rightarrow> number list" where
  "C4f g eps c = scale_loop eps nC4 1 (Fin 1) (C4f_rows eps (g_C4x g) nC4x nC4 c)"

record lengths_vals =
  len_m0 :: number
  len_m12b :: number
  len_s12b :: number
  len_M12 :: number
  len_M21 :: number

text \<open>
  \<open>Lengths\<close> fills the arrays \<open>C1a\<close> and \<open>C2a\<close> it is given before it reads them; what it
  leaves in them is never read again, so only the result object is returned.
\<close>

definition Lengths ::
  "geodesic \<Rightarrow> number \<Rightarrow> number \<Rightarrow> number \<Rightarrow> number \<Rightarrow> number \<Rightarrow> number \<Rightarrow> number \<Rightarrow> number
   \<Rightarrow> number \<Rightarrow> number \<Rightarrow> bool \<Rightarrow> number list \<Rightarrow> number list \<Rightarrow> lengths_vals" where
  "Lengths g eps sig12 ssig1 csig1 dn1 ssig2 csig2 dn2 cbet1 cbet2 scalep C1a0 C2a0 =
     (let vals = \<lparr> len_m0 = Fin 0, len_m12b = Fin 0, len_s12b = Fin 0,
                       len_M12 = Fin 0, len_M21 = Fin 0 \<rparr>;
          C1a = C1f eps C1a0;
          C2a = C2f eps C2a0;
          A1m1 = A1m1f eps;
          AB1 = (Fin 1 + A1m1) * (SinCosSeries True ssig2 csig2 C1a nC1 -
                                  SinCosSeries True ssig1 csig1 C1a nC1);
          A2m1 = A2m1f eps;
          AB2 = (Fin 1 + A2m1) * (SinCosSeries True ssig2 csig2 C2a nC2 -
                                  SinCosSeries True ssig1 csig1 C2a nC2);
          vals = vals \<lparr> len_m0 := A1m1 - A2m1 \<rparr>;
          J12 = len_m0 vals * sig12 + (AB1 - AB2);
          vals = vals \<lparr> len_m12b := dn2 * (csig1 * ssig2) - dn1 * (ssig1 * csig2) -
                                 csig1 * csig2 * J12 \<rparr>;
          vals = vals \<lparr> len_s12b := (Fin 1 + A1m1) * sig12 + AB1 \<rparr>
      in if scalep then
           (let csig12 = csig1 * csig2 + ssig1 * ssig2;
                t = g_ep2 g * (cbet1 - cbet2) * (cbet1 + cbet2) / (dn1 + dn2);
                vals = vals \<lparr> len_M12 := csig12 + (t * ssig2 - csig2 * J12) * ssig1 / dn1 \<rparr>
            in vals \<lparr> len_M21 := csig12 - (t * ssig1 - csig1 * J12) * ssig2 / dn2 \<rparr>)
         else vals)"

record inverse_start_vals =
  is_dnm :: number
  is_salp1 :: number
  is_calp1 :: number
  is_salp2 :: number
  is_calp2 :: number
  is_sig12 :: number

definition InverseStart ::
  "geodesic \<Rightarrow> number \<Rightarrow> number \<Rightarrow> number \<Rightarrow> number \<Rightarrow> number \<Rightarrow> number \<Rightarrow> number
   \<Rightarrow> number list \<Rightarrow> number list \<Rightarrow> inverse_start_vals" where
  "InverseStart g sbet1 cbet1 dn1 sbet2 cbet2 dn2 lam12 C1a C2a =
     (let vals = \<lparr> is_dnm = Fin 0, is_salp1 = Fin 0, is_calp1 = Fin 0,
                    is_salp2 = Fin 0, is_calp2 = Fin 0, is_sig12 = Fin 0 \<rparr>;
          sbet12 = sbet2 * cbet1 - cbet2 * sbet1;
          cbet12 = cbet2 * cbet1 + sbet2 * sbet1;
          vals = vals \<lparr> is_sig12 := Fin (- 1) \<rparr>;
          sbet12a = sbet2 * cbet1;
          sbet12a = sbet12a + cbet2 * sbet1;
          shortline = (Fin 0 \<le> cbet12 \<and> sbet12 < Fin 0.5 \<and> cbet2 * lam12 < Fin 0.5);
          omg12 = lam12;
          (vals, omg12) =
            (if shortline then
               (let sbetm2 = sq (sbet1 + sbet2);
                    sbetm2 = sbetm2 / (sbetm2 + sq (cbet1 + cbet2));
                    vals = vals \<lparr> is_dnm := Math_sqrt (Fin 1 + g_ep2 g * sbetm2) \<rparr>
                in (vals, omg12 / (g_f1 g * is_dnm vals)))
             else (vals, omg12));
          somg12 = Math_sin omg12;
          comg12 = Math_cos omg12;
          vals = vals \<lparr> is_salp1 := cbet2 * somg12 \<rparr>;
          vals = vals \<lparr> is_calp1 :=
                   (if Fin 0 \<le> comg12
                    then sbet12 + cbet2 * sbet1 * sq somg12 / (Fin 1 + comg12)
                    else sbet12a - cbet2 * sbet1 * sq somg12 / (Fin 1 - comg12)) \<rparr>;
          ssig12 = hypot (is_salp1 vals) (is_calp1 vals);
          csig12 = sbet1 * sbet2 + cbet1 * cbet2 * comg12;
          vals =
            (if shortline \<and> ssig12 < g_etol2 g then
               (let vals = vals \<lparr> is_salp2 := cbet1 * somg12 \<rparr>;
                    vals = vals \<lparr> is_calp2 := sbet12 - cbet1 * sbet2 *
                             (if Fin 0 \<le> comg12 then sq somg12 / (Fin 1 + comg12)
                              else Fin 1 - comg12) \<rparr>;
                    t = hypot (is_salp2 vals) (is_calp2 vals);
                    vals = vals \<lparr> is_salp2 := is_salp2 vals / t \<rparr>;
                    vals = vals \<lparr> is_calp2 := is_calp2 vals / t \<rparr>
                in vals \<lparr> is_sig12 := Math_atan2 ssig12 csig12 \<rparr>)
             else if Fin 0.1 < \<bar>g_n g\<bar> \<or> Fin 0 \<le> csig12 \<or>
                     Fin 6 * \<bar>g_n g\<bar> * Fin pi * sq cbet1 \<le> ssig12 then vals
             else
               (let (x, y, lamscale) =
                      (if Fin 0 \<le> g_f g then
                         (let k2 = sq sbet1 * g_ep2 g;
                              eps = k2 / (Fin 2 * (Fin 1 + Math_sqrt (Fin 1 + k2)) + k2);
                              lamscale = g_f g * cbet1 * A3f g eps * Fin pi;
                              betscale = lamscale * cbet1;
                              x = (lam12 - Fin pi) / lamscale;
                              y = sbet12a / betscale
                          in (x, y, lamscale))
                       else
                         (let cbet12a = cbet2 * cbet1 - sbet2 * sbet1;
                              bet12a = Math_atan2 sbet12a cbet12a;
                              nvals = Lengths g (g_n g) (Fin pi + bet12a)
                                        sbet1 (- cbet1) dn1 sbet2 cbet2 dn2
                                        cbet1 cbet2 False C1a C2a;
                              m12b = len_m12b nvals;
                              m0 = len_m0 nvals;
                              x = Fin (- 1) + m12b / (cbet1 * cbet2 * m0 * Fin pi);
                              betscale = (if x < Fin (- 0.01) then sbet12a / x
                                          else - g_f g * sq cbet1 * Fin pi);
                              lamscale = betscale / cbet1;
                              y = (lam12 - Fin pi) / lamscale
                          in (x, y, lamscale)))
                in if - tol1 < y \<and> Fin (- 1) - xthresh < x then
                     (if Fin 0 \<le> g_f g then
                        (let vals = vals \<lparr> is_salp1 := Math_min (Fin 1) (- x) \<rparr>
                         in vals \<lparr> is_calp1 := - Math_sqrt (Fin 1 - sq (is_salp1 vals)) \<rparr>)
                      else
                        (let vals = vals \<lparr> is_calp1 :=
                                      Math_max (if - tol1 < x then Fin 0 else Fin (- 1)) x \<rparr>
                         in vals \<lparr> is_salp1 := Math_sqrt (Fin 1 - sq (is_calp1 vals)) \<rparr>))
                   else
                     (let k = Astroid x y;
                          omg12a = lamscale * (if Fin 0 \<le> g_f g then - x * k / (Fin 1 + k)
                                               else - y * (Fin 1 + k) / k);
                          somg12 = Math_sin omg12a;
                          comg12 = - Math_cos omg12a;
                          vals = vals \<lparr> is_salp1 := cbet2 * somg12 \<rparr>
                      in vals \<lparr> is_calp1 :=
                           sbet12a - cbet2 * sbet1 * sq somg12 / (Fin 1 - comg12) \<rparr>)))
      in if Fin 0 < is_salp1 vals then
           (let t = hypot (is_salp1 vals) (is_calp1 vals);
                vals = vals \<lparr> is_salp1 := is_salp1 vals / t \<rparr>
            in vals \<lparr> is_calp1 := is_calp1 vals / t \<rparr>)
         else vals \<lparr> is_salp1 := Fin 1, is_calp1 := Fin 0 \<rparr>)"

record lambda12_vals =
  lam_ssig1 :: number
  lam_csig1 :: number
  lam_salp2 :: number
  lam_calp2 :: number
  lam_ssig2 :: number
  lam_csig2 :: number
  lam_sig12 :: number
  lam_eps :: number
  lam_domg12 :: number
  lam_lam12 :: number
  lam_dlam12 :: number

text \<open>
  \<open>Lambda12\<close> fills \<open>C3a\<close> through \<open>C3f\<close> before it reads it, and passes \<open>C1a\<close> and \<open>C2a\<close>
  on to \<open>Lengths\<close>.
\<close>

definition Lambda12 ::
  "geodesic \<Rightarrow> number \<Rightarrow> number \<Rightarrow> number \<Rightarrow> number \<Rightarrow> number \<Rightarrow> number \<Rightarrow> number
   \<Rightarrow> number \<Rightarrow> bool \<Rightarrow> number list \<Rightarrow> number list \<Rightarrow> number list \<Rightarrow> lambda12_vals" where
  "Lambda12 g sbet1 cbet1 dn1 sbet2 cbet2 dn2 salp1 calp10 diffp C1a C2a C3a0 =
     (let vals = \<lparr> lam_ssig1 = Fin 0, lam_csig1 = Fin 0, lam_salp2 = Fin 0,
                    lam_calp2 = Fin 0, lam_ssig2 = Fin 0, lam_csig2 = Fin 0,
                    lam_sig12 = Fin 0, lam_eps = Fin 0, lam_domg12 = Fin 0,
                    lam_lam12 = Fin 0, lam_dlam12 = Fin 0 \<rparr>;
          calp1 = (if eqn sbet1 (Fin 0) \<and> eqn calp10 (Fin 0) then - tiny else calp10);
          salp0 = salp1 * cbet1;
          calp0 = hypot calp1 (salp1 * sbet1);
          vals = vals \<lparr> lam_ssig1 := sbet1 \<rparr>;
          somg1 = salp0 * sbet1;
          comg1 = calp1 * cbet1;
          vals = vals \<lparr> lam_csig1 := comg1 \<rparr>;
          t = hypot (lam_ssig1 vals) (lam_csig1 vals);
          vals = vals \<lparr> lam_ssig1 := lam_ssig1 vals / t \<rparr>;
          vals = vals \<lparr> lam_csig1 := lam_csig1 vals / t \<rparr>;
          vals = vals \<lparr> lam_salp2 := (if \<not> eqn cbet2 cbet1 then salp0 / cbet2 else salp1) \<rparr>;
          vals = vals \<lparr> lam_calp2 :=
                   (if \<not> eqn cbet2 cbet1 \<or> \<not> eqn \<bar>sbet2\<bar> (- sbet1) then
                      Math_sqrt (sq (calp1 * cbet1) +
                                 (if cbet1 < - sbet1 then (cbet2 - cbet1) * (cbet1 + cbet2)
                                  else (sbet1 - sbet2) * (sbet1 + sbet2))) / cbet2
                    else \<bar>calp1\<bar>) \<rparr>;
          vals = vals \<lparr> lam_ssig2 := sbet2 \<rparr>;
          somg2 = salp0 * sbet2;
          comg2 = lam_calp2 vals * cbet2;
          vals = vals \<lparr> lam_csig2 := comg2 \<rparr>;
          t = hypot (lam_ssig2 vals) (lam_csig2 vals);
          vals = vals \<lparr> lam_ssig2 := lam_ssig2 vals / t \<rparr>;
          vals = vals \<lparr> lam_csig2 := lam_csig2 vals / t \<rparr>;
          vals = vals \<lparr> lam_sig12 :=
                   Math_atan2 (Math_max (lam_csig1 vals * lam_ssig2 vals -
                                         lam_ssig1 vals * lam_csig2 vals) (Fin 0))
                              (lam_csig1 vals * lam_csig2 vals +
                               lam_ssig1 vals * lam_ssig2 vals) \<rparr>;
          omg12 = Math_atan2 (Math_max (comg1 * somg2 - somg1 * comg2) (Fin 0))
                             (comg1 * comg2 + somg1 * somg2);
          k2 = sq calp0 * g_ep2 g;
          vals = vals \<lparr> lam_eps := k2 / (Fin 2 * (Fin 1 + Math_sqrt (Fin 1 + k2)) + k2) \<rparr>;
          C3a = C3f g (lam_eps vals) C3a0;
          B312 = SinCosSeries True (lam_ssig2 vals) (lam_csig2 vals) C3a (nC3 - 1) -
                 SinCosSeries True (lam_ssig1 vals) (lam_csig1 vals) C3a (nC3 - 1);
          h0 = - g_f g * A3f g (lam_eps vals);
          vals = vals \<lparr> lam_domg12 := salp0 * h0 * (lam_sig12 vals + B312) \<rparr>;
          vals = vals \<lparr> lam_lam12 := omg12 + lam_domg12 vals \<rparr>
      in if diffp then
           (if eqn (lam_calp2 vals) (Fin 0) then
              vals \<lparr> lam_dlam12 := Fin (- 2) * g_f1 g * dn1 / sbet1 \<rparr>
            else
              (let nvals = Lengths g (lam_eps vals) (lam_sig12 vals)
                             (lam_ssig1 vals) (lam_csig1 vals) dn1
                             (lam_ssig2 vals) (lam_csig2 vals) dn2
                             cbet1 cbet2 False C1a C2a;
                   vals = vals \<lparr> lam_dlam12 := len_m12b nvals \<rparr>
               in vals \<lparr> lam_dlam12 := lam_dlam12 vals * (g_f1 g / (lam_calp2 vals * cbet2)) \<rparr>))
         else vals)"

section \<open>\<open>GenInverse\<close>\<close>

text \<open>Reading a property of a result object as a number.\<close>

definition fld :: "object \<Rightarrow> string \<Rightarrow> number" where
  "fld vals k = (case vals k of None \<Rightarrow> NaN | Some v \<Rightarrow> v)"

text \<open>
  \<open>GenInverse\<close> is one long function.  It is modelled in the order it is written, cut
  into four parts: the reduction of the two points to the canonical configuration
  (\<open>inverse_setup\<close> and \<open>inverse_canon\<close>), the Newton and bisection loop (\<open>inverse_loop\<close>), the choice among
  the meridional, equatorial, short-line and general solutions (\<open>inverse_solve\<close>), and the
  output (\<open>inverse_output\<close>).  Each part returns the variables the later parts read.
\<close>

record inv_setup =
  su_lon12 :: number
  su_lonsign :: number
  su_lat1 :: number
  su_lat2 :: number
  su_swapp :: number
  su_latsign :: number
  su_sbet1 :: number
  su_cbet1 :: number
  su_sbet2 :: number
  su_cbet2 :: number
  su_dn1 :: number
  su_dn2 :: number
  su_lam12 :: number
  su_slam12 :: number
  su_clam12 :: number

text \<open>
  \<open>inverse_canon\<close> is the part of the reduction after the two points have been put in
  order: it starts at \<open>var latsign = ...\<close>.
\<close>

definition inverse_canon ::
  "geodesic \<Rightarrow> number \<Rightarrow> number \<Rightarrow> number \<Rightarrow> number \<Rightarrow> number \<Rightarrow> inv_setup" where
  "inverse_canon g lon12 lonsign swapp lat10 lat20 =
     (let latsign = (if lat10 < Fin 0 then Fin 1 else Fin (- 1));
          lat1 = lat10 * latsign;
          lat2 = lat20 * latsign;
          phi = lat1 * degree;
          sbet1 = g_f1 g * Math_sin phi;
          cbet1 = (if eqn lat1 (Fin (- 90)) then tiny else Math_cos phi);
          t = hypot sbet1 cbet1;
          sbet1 = sbet1 / t;
          cbet1 = cbet1 / t;
          phi = lat2 * degree;
          sbet2 = g_f1 g * Math_sin phi;
          cbet2 = (if eqn \<bar>lat2\<bar> (Fin 90) then tiny else Math_cos phi);
          t = hypot sbet2 cbet2;
          sbet2 = sbet2 / t;
          cbet2 = cbet2 / t;
          (sbet2, cbet2) =
            (if cbet1 < - sbet1 then
               (if eqn cbet2 cbet1 then ((if sbet2 < Fin 0 then sbet1 else - sbet1), cbet2)
                else (sbet2, cbet2))
             else
               (if eqn \<bar>sbet2\<bar> (- sbet1) then (sbet2, cbet1) else (sbet2, cbet2)));
          dn1 = Math_sqrt (Fin 1 + g_ep2 g * sq sbet1);
          dn2 = Math_sqrt (Fin 1 + g_ep2 g * sq sbet2);
          lam12 = lon12 * degree;
          slam12 = (if eqn lon12 (Fin 180) then Fin 0 else Math_sin lam12);
          clam12 = Math_cos lam12
      in \<lparr> su_lon12 = lon12, su_lonsign = lonsign, su_lat1 = lat1, su_lat2 = lat2,
            su_swapp = swapp, su_latsign = latsign,
            su_sbet1 = sbet1, su_cbet1 = cbet1, su_sbet2 = sbet2, su_cbet2 = cbet2,
            su_dn1 = dn1, su_dn2 = dn2,
            su_lam12 = lam12, su_slam12 = slam12, su_clam12 = clam12 \<rparr>)"

definition inverse_setup :: "geodesic \<Rightarrow> number \<Rightarrow> number \<Rightarrow> number \<Rightarrow> number \<Rightarrow> inv_setup" where
  "inverse_setup g lat10 lon1 lat20 lon2 =
     (let lon12 = angDiff (angNormalize lon1) (angNormalize lon2);
          lon12 = AngRound lon12;
          lonsign = (if Fin 0 \<le> lon12 then Fin 1 else Fin (- 1));
          lon12 = lon12 * lonsign;
          lat1 = AngRound lat10;
          lat2 = AngRound lat20;
          swapp = (if \<bar>lat2\<bar> \<le> \<bar>lat1\<bar> then Fin 1 else Fin (- 1));
          (lonsign, lat1, lat2) =
            (if swapp < Fin 0 then (lonsign * Fin (- 1), lat2, lat1) else (lonsign, lat1, lat2))
      in inverse_canon g lon12 lonsign swapp lat1 lat2)"

subsection \<open>The Newton and bisection loop\<close>

text \<open>
  The variables the loop reads and writes.  \<open>st_numit\<close> is the loop counter; the others
  carry the names they have in \<open>GenInverse\<close>.
\<close>

record inv_state =
  st_numit :: nat
  st_tripn :: bool
  st_tripb :: bool
  st_salp1 :: number
  st_calp1 :: number
  st_salp1a :: number
  st_calp1a :: number
  st_salp1b :: number
  st_calp1b :: number
  st_salp2 :: number
  st_calp2 :: number
  st_sig12 :: number
  st_ssig1 :: number
  st_csig1 :: number
  st_ssig2 :: number
  st_csig2 :: number
  st_eps :: number
  st_omg12 :: number

text \<open>
  How one pass through the loop body ends: at the \<open>break\<close>, at the \<open>continue\<close> that
  follows an accepted Newton step, or at the end of the body after a bisection step.
\<close>

datatype 'a step = Break 'a | is_Newton: Newton 'a | Bisect 'a

definition inverse_body ::
  "geodesic \<Rightarrow> inv_setup \<Rightarrow> number list \<Rightarrow> number list \<Rightarrow> number list \<Rightarrow> inv_state
   \<Rightarrow> inv_state step" where
  "inverse_body g su C1a C2a C3a st0 =
     (let numit = st_numit st0;
          nvals = Lambda12 g (su_sbet1 su) (su_cbet1 su) (su_dn1 su)
                    (su_sbet2 su) (su_cbet2 su) (su_dn2 su)
                    (st_salp1 st0) (st_calp1 st0) (numit < maxit1) C1a C2a C3a;
          v = lam_lam12 nvals - su_lam12 su;
          st = st0 \<lparr> st_salp2 := lam_salp2 nvals, st_calp2 := lam_calp2 nvals,
                     st_sig12 := lam_sig12 nvals,
                     st_ssig1 := lam_ssig1 nvals, st_csig1 := lam_csig1 nvals,
                     st_ssig2 := lam_ssig2 nvals, st_csig2 := lam_csig2 nvals,
                     st_eps := lam_eps nvals, st_omg12 := lam_domg12 nvals \<rparr>;
          dv = lam_dlam12 nvals
      in if st_tripb st \<or> \<not> ((if st_tripn st then Fin 8 else Fin 2) * tol0 \<le> \<bar>v\<bar>)
         then Break st
         else
           (let salp1 = st_salp1 st;
                calp1 = st_calp1 st;
                st = (if Fin 0 < v \<and>
                         (numit < maxit1 \<or> st_calp1b st / st_salp1b st < calp1 / salp1)
                      then st \<lparr> st_salp1b := salp1, st_calp1b := calp1 \<rparr>
                      else if v < Fin 0 \<and>
                         (numit < maxit1 \<or> calp1 / salp1 < st_calp1a st / st_salp1a st)
                      then st \<lparr> st_salp1a := salp1, st_calp1a := calp1 \<rparr>
                      else st);
                dalp1 = - v / dv;
                sdalp1 = Math_sin dalp1;
                cdalp1 = Math_cos dalp1;
                nsalp1 = salp1 * cdalp1 + calp1 * sdalp1
            in if numit < maxit1 \<and> Fin 0 < dv \<and> Fin 0 < nsalp1 \<and> \<bar>dalp1\<bar> < Fin pi then
                 (let calp1 = calp1 * cdalp1 - salp1 * sdalp1;
                      salp1 = Math_max (Fin 0) nsalp1;
                      t = hypot salp1 calp1;
                      salp1 = salp1 / t;
                      calp1 = calp1 / t
                  in Newton (st \<lparr> st_salp1 := salp1, st_calp1 := calp1,
                                    st_tripn := (\<bar>v\<bar> \<le> Fin 16 * tol0) \<rparr>))
               else
                 (let salp1 = (st_salp1a st + st_salp1b st) / Fin 2;
                      calp1 = (st_calp1a st + st_calp1b st) / Fin 2;
                      t = hypot salp1 calp1;
                      salp1 = salp1 / t;
                      calp1 = calp1 / t
                  in Bisect (st \<lparr> st_salp1 := salp1, st_calp1 := calp1,
                                    st_tripn := False,
                                    st_tripb :=
                                      (\<bar>st_salp1a st - salp1\<bar> + (st_calp1a st - calp1) < tolb \<or>
                                       \<bar>salp1 - st_salp1b st\<bar> + (calp1 - st_calp1b st) < tolb) \<rparr>))))"

text \<open>
  \<open>for (...; numit < maxit2; ++numit) body\<close>.  The body does not assign \<open>numit\<close>; the
  loop increments it after a pass that did not break.
\<close>

function inverse_loop ::
  "geodesic \<Rightarrow> inv_setup \<Rightarrow> number list \<Rightarrow> number list \<Rightarrow> number list \<Rightarrow> inv_state
   \<Rightarrow> inv_state" where
  "inverse_loop g su C1a C2a C3a st =
     (if st_numit st < maxit2 then
        (case inverse_body g su C1a C2a C3a st of
           Break st' \<Rightarrow> st'
         | Newton st' \<Rightarrow> inverse_loop g su C1a C2a C3a (st' \<lparr> st_numit := st_numit st + 1 \<rparr>)
         | Bisect st' \<Rightarrow> inverse_loop g su C1a C2a C3a (st' \<lparr> st_numit := st_numit st + 1 \<rparr>))
      else st)"
  by pat_completeness auto
termination
  by (relation "measure (\<lambda>(g, su, C1a, C2a, C3a, st). maxit2 - st_numit st)") auto

declare inverse_loop.simps [simp del]

text \<open>The number of times the loop of \<open>inverse_loop\<close> enters its body.\<close>

function inverse_passes ::
  "geodesic \<Rightarrow> inv_setup \<Rightarrow> number list \<Rightarrow> number list \<Rightarrow> number list \<Rightarrow> inv_state \<Rightarrow> nat" where
  "inverse_passes g su C1a C2a C3a st =
     (if st_numit st < maxit2 then
        (case inverse_body g su C1a C2a C3a st of
           Break st' \<Rightarrow> 1
         | Newton st' \<Rightarrow>
             1 + inverse_passes g su C1a C2a C3a (st' \<lparr> st_numit := st_numit st + 1 \<rparr>)
         | Bisect st' \<Rightarrow>
             1 + inverse_passes g su C1a C2a C3a (st' \<lparr> st_numit := st_numit st + 1 \<rparr>))
      else 0)"
  by pat_completeness auto
termination
  by (relation "measure (\<lambda>(g, su, C1a, C2a, C3a, st). maxit2 - st_numit st)") auto

declare inverse_passes.simps [simp del]

subsection \<open>The solution in the canonical configuration\<close>

record inv_sol =
  so_vals :: object
  so_meridian :: bool
  so_sig12 :: number
  so_salp1 :: number
  so_calp1 :: number
  so_salp2 :: number
  so_calp2 :: number
  so_s12x :: number
  so_m12x :: number
  so_omg12 :: number

text \<open>
  The meridional attempt: \<open>if (meridian) { ... }\<close>.  It may clear \<open>meridian\<close> again, and
  then leaves behind what it assigned to \<open>calp1\<close>, \<open>salp1\<close>, \<open>calp2\<close>, \<open>salp2\<close>,
  \<open>sig12\<close>, \<open>s12x\<close>, \<open>m12x\<close> and to the scale fields of \<open>vals\<close>.
\<close>

definition inverse_meridian ::
  "geodesic \<Rightarrow> inv_setup \<Rightarrow> mask \<Rightarrow> number list \<Rightarrow> number list \<Rightarrow> inv_sol \<Rightarrow> inv_sol" where
  "inverse_meridian g su outmask C1a C2a so =
     (let calp1 = su_clam12 su;
          salp1 = su_slam12 su;
          calp2 = Fin 1;
          salp2 = Fin 0;
          ssig1 = su_sbet1 su;
          csig1 = calp1 * su_cbet1 su;
          ssig2 = su_sbet2 su;
          csig2 = calp2 * su_cbet2 su;
          sig12 = Math_atan2 (Math_max (csig1 * ssig2 - ssig1 * csig2) (Fin 0))
                             (csig1 * csig2 + ssig1 * ssig2);
          nvalsx = Lengths g (g_n g) sig12 ssig1 csig1 (su_dn1 su) ssig2 csig2 (su_dn2 su)
                     (su_cbet1 su) (su_cbet2 su) (outmask AND GEODESICSCALE \<noteq> 0) C1a C2a;
          s12x = len_s12b nvalsx;
          m12x = len_m12b nvalsx;
          vals = so_vals so;
          vals = (if outmask AND GEODESICSCALE \<noteq> 0
                  then vals(''M12'' \<mapsto> len_M12 nvalsx, ''M21'' \<mapsto> len_M21 nvalsx)
                  else vals);
          so = so \<lparr> so_calp1 := calp1, so_salp1 := salp1, so_calp2 := calp2,
                     so_salp2 := salp2, so_sig12 := sig12 \<rparr>
      in if sig12 < Fin 1 \<or> Fin 0 \<le> m12x then
           so \<lparr> so_m12x := m12x * g_b g, so_s12x := s12x * g_b g,
                so_vals := vals(''a12'' \<mapsto> sig12 / degree) \<rparr>
         else
           so \<lparr> so_m12x := m12x, so_s12x := s12x, so_vals := vals, so_meridian := False \<rparr>)"

definition inverse_solve :: "geodesic \<Rightarrow> inv_setup \<Rightarrow> mask \<Rightarrow> object \<Rightarrow> inv_sol" where
  "inverse_solve g su outmask vals0 =
     (let sbet1 = su_sbet1 su; cbet1 = su_cbet1 su; dn1 = su_dn1 su;
          sbet2 = su_sbet2 su; cbet2 = su_cbet2 su; dn2 = su_dn2 su;
          lam12 = su_lam12 su;
          so = \<lparr> so_vals = vals0, so_meridian = False,
                  so_sig12 = Fin 0, so_salp1 = Fin 0, so_calp1 = Fin 0,
                  so_salp2 = Fin 0, so_calp2 = Fin 0,
                  so_s12x = Fin 0, so_m12x = Fin 0, so_omg12 = Fin 0 \<rparr>;
          C1a = new_Array (nC1 + 1);
          C2a = new_Array (nC2 + 1);
          C3a = new_Array nC3;
          so = so \<lparr> so_meridian := (eqn (su_lat1 su) (Fin (- 90)) \<or> eqn (su_slam12 su) (Fin 0)) \<rparr>;
          so = (if so_meridian so then inverse_meridian g su outmask C1a C2a so else so)
      in if \<not> so_meridian so \<and> eqn sbet1 (Fin 0) \<and>
            (g_f g \<le> Fin 0 \<or> lam12 \<le> Fin pi - g_f g * Fin pi) then
           (let sig12 = lam12 / g_f1 g;
                vals = so_vals so;
                vals = (if outmask AND GEODESICSCALE \<noteq> 0
                        then vals(''M12'' \<mapsto> Math_cos sig12, ''M21'' \<mapsto> Math_cos sig12)
                        else vals)
            in so \<lparr> so_calp1 := Fin 0, so_calp2 := Fin 0,
                    so_salp1 := Fin 1, so_salp2 := Fin 1,
                    so_s12x := g_a g * lam12,
                    so_sig12 := sig12, so_omg12 := sig12,
                    so_m12x := g_b g * Math_sin sig12,
                    so_vals := vals(''a12'' \<mapsto> su_lon12 su / g_f1 g) \<rparr>)
         else if \<not> so_meridian so then
           (let nvals = InverseStart g sbet1 cbet1 dn1 sbet2 cbet2 dn2 lam12 C1a C2a;
                sig12 = is_sig12 nvals;
                so = so \<lparr> so_sig12 := sig12, so_salp1 := is_salp1 nvals,
                           so_calp1 := is_calp1 nvals \<rparr>
            in if Fin 0 \<le> sig12 then
                 (let dnm = is_dnm nvals;
                      vals = so_vals so;
                      vals = (if outmask AND GEODESICSCALE \<noteq> 0
                              then vals(''M12'' \<mapsto> Math_cos (sig12 / dnm),
                                        ''M21'' \<mapsto> Math_cos (sig12 / dnm))
                              else vals)
                  in so \<lparr> so_salp2 := is_salp2 nvals, so_calp2 := is_calp2 nvals,
                          so_s12x := sig12 * g_b g * dnm,
                          so_m12x := sq dnm * g_b g * Math_sin (sig12 / dnm),
                          so_vals := vals(''a12'' \<mapsto> sig12 / degree),
                          so_omg12 := lam12 / (g_f1 g * dnm) \<rparr>)
               else
                 (let st = inverse_loop g su C1a C2a C3a
                             \<lparr> st_numit = 0, st_tripn = False, st_tripb = False,
                                st_salp1 = so_salp1 so, st_calp1 = so_calp1 so,
                                st_salp1a = tiny, st_calp1a = Fin 1,
                                st_salp1b = tiny, st_calp1b = Fin (- 1),
                                st_salp2 = so_salp2 so, st_calp2 = so_calp2 so,
                                st_sig12 = sig12,
                                st_ssig1 = Fin 0, st_csig1 = Fin 0,
                                st_ssig2 = Fin 0, st_csig2 = Fin 0,
                                st_eps = Fin 0, st_omg12 = so_omg12 so \<rparr>;
                      nvals = Lengths g (st_eps st) (st_sig12 st)
                                (st_ssig1 st) (st_csig1 st) dn1 (st_ssig2 st) (st_csig2 st) dn2
                                cbet1 cbet2 (outmask AND GEODESICSCALE \<noteq> 0) C1a C2a;
                      s12x = len_s12b nvals;
                      m12x = len_m12b nvals;
                      vals = so_vals so;
                      vals = (if outmask AND GEODESICSCALE \<noteq> 0
                              then vals(''M12'' \<mapsto> len_M12 nvals, ''M21'' \<mapsto> len_M21 nvals)
                              else vals)
                  in so \<lparr> so_salp1 := st_salp1 st, so_calp1 := st_calp1 st,
                          so_salp2 := st_salp2 st, so_calp2 := st_calp2 st,
                          so_sig12 := st_sig12 st,
                          so_m12x := m12x * g_b g, so_s12x := s12x * g_b g,
                          so_vals := vals(''a12'' \<mapsto> st_sig12 st / degree),
                          so_omg12 := lam12 - st_omg12 st \<rparr>))
         else so)"

subsection \<open>The output\<close>

definition inverse_area :: "geodesic \<Rightarrow> inv_setup \<Rightarrow> inv_sol \<Rightarrow> object \<Rightarrow> object" where
  "inverse_area g su so vals0 =
     (let sbet1 = su_sbet1 su; cbet1 = su_cbet1 su;
          sbet2 = su_sbet2 su; cbet2 = su_cbet2 su;
          salp1 = so_salp1 so; calp1 = so_calp1 so;
          salp2 = so_salp2 so; calp2 = so_calp2 so;
          omg12 = so_omg12 so;
          salp0 = salp1 * cbet1;
          calp0 = hypot calp1 (salp1 * sbet1);
          vals =
            (if \<not> eqn calp0 (Fin 0) \<and> \<not> eqn salp0 (Fin 0) then
               (let ssig1 = sbet1;
                    csig1 = calp1 * cbet1;
                    ssig2 = sbet2;
                    csig2 = calp2 * cbet2;
                    k2 = sq calp0 * g_ep2 g;
                    eps = k2 / (Fin 2 * (Fin 1 + Math_sqrt (Fin 1 + k2)) + k2);
                    A4 = sq (g_a g) * calp0 * salp0 * g_e2 g;
                    t = hypot ssig1 csig1;
                    ssig1 = ssig1 / t;
                    csig1 = csig1 / t;
                    t = hypot ssig2 csig2;
                    ssig2 = ssig2 / t;
                    csig2 = csig2 / t;
                    C4a = C4f g eps (new_Array nC4);
                    B41 = SinCosSeries False ssig1 csig1 C4a nC4;
                    B42 = SinCosSeries False ssig2 csig2 C4a nC4
                in vals0(''S12'' \<mapsto> A4 * (B42 - B41)))
             else vals0(''S12'' \<mapsto> Fin 0));
          alp12 =
            (if \<not> so_meridian so \<and> omg12 < Fin 0.75 * Fin pi \<and> sbet2 - sbet1 < Fin 1.75 then
               (let somg12 = Math_sin omg12;
                    domg12 = Fin 1 + Math_cos omg12;
                    dbet1 = Fin 1 + cbet1;
                    dbet2 = Fin 1 + cbet2
                in Fin 2 * Math_atan2 (somg12 * (sbet1 * dbet2 + sbet2 * dbet1))
                                      (domg12 * (sbet1 * sbet2 + dbet1 * dbet2)))
             else
               (let salp12 = salp2 * calp1 - calp2 * salp1;
                    calp12 = calp2 * calp1 + salp2 * salp1;
                    (salp12, calp12) =
                      (if eqn salp12 (Fin 0) \<and> calp12 < Fin 0 then (tiny * calp1, Fin (- 1))
                       else (salp12, calp12))
                in Math_atan2 salp12 calp12));
          vals = vals(''S12'' \<mapsto> fld vals ''S12'' + g_c2 g * alp12);
          vals = vals(''S12'' \<mapsto> fld vals ''S12'' * (su_swapp su * su_lonsign su * su_latsign su))
      in vals(''S12'' \<mapsto> fld vals ''S12'' + Fin 0))"

definition inverse_output :: "geodesic \<Rightarrow> inv_setup \<Rightarrow> inv_sol \<Rightarrow> mask \<Rightarrow> object" where
  "inverse_output g su so outmask =
     (let vals = so_vals so;
          swapp = su_swapp su; lonsign = su_lonsign su; latsign = su_latsign su;
          vals = (if outmask AND DISTANCE \<noteq> 0 then vals(''s12'' \<mapsto> Fin 0 + so_s12x so) else vals);
          vals = (if outmask AND REDUCEDLENGTH \<noteq> 0 then vals(''m12'' \<mapsto> Fin 0 + so_m12x so)
                  else vals);
          vals = (if outmask AND AREA \<noteq> 0 then inverse_area g su so vals else vals);
          salp1 = so_salp1 so; calp1 = so_calp1 so;
          salp2 = so_salp2 so; calp2 = so_calp2 so;
          (salp1, salp2, calp1, calp2, vals) =
            (if swapp < Fin 0 then
               (salp2, salp1, calp2, calp1,
                (if outmask AND GEODESICSCALE \<noteq> 0
                 then vals(''M12'' \<mapsto> fld vals ''M21'', ''M21'' \<mapsto> fld vals ''M12'')
                 else vals))
             else (salp1, salp2, calp1, calp2, vals));
          salp1 = salp1 * (swapp * lonsign);
          calp1 = calp1 * (swapp * latsign);
          salp2 = salp2 * (swapp * lonsign);
          calp2 = calp2 * (swapp * latsign)
      in if outmask AND AZIMUTH \<noteq> 0 then
           vals(''azi1'' \<mapsto> Fin 0 - Math_atan2 (- salp1) calp1 / degree,
                ''azi2'' \<mapsto> Fin 0 - Math_atan2 (- salp2) calp2 / degree)
         else vals)"

definition GenInverse ::
  "geodesic \<Rightarrow> number \<Rightarrow> number \<Rightarrow> number \<Rightarrow> number \<Rightarrow> mask \<Rightarrow> object" where
  "GenInverse g lat1 lon1 lat2 lon2 outmask0 =
     (let vals = [''M12'' \<mapsto> Fin 0, ''M21'' \<mapsto> Fin 0, ''a12'' \<mapsto> Fin 0, ''s12'' \<mapsto> Fin 0,
                  ''m12'' \<mapsto> Fin 0, ''S12'' \<mapsto> Fin 0, ''azi1'' \<mapsto> Fin 0, ''azi2'' \<mapsto> Fin 0];
          outmask = outmask0 AND OUT_ALL;
          su = inverse_setup g lat1 lon1 lat2 lon2;
          so = inverse_solve g su outmask vals
      in inverse_output g su so outmask)"

section \<open>\<open>GeodesicLine\<close>\<close>

text \<open>
  The fields of a line.  The fields after \<open>l_k2\<close> are assigned only when the capability
  that needs them is set.  An unset scalar field reads as \<open>undefined\<close> and only ever
  feeds arithmetic, so it is \<open>NaN\<close>; an unset array field is \<open>None\<close>, and indexing it
  raises \<open>TypeError\<close>.
\<close>

record geodesic_line =
  l_a :: number
  l_f :: number
  l_b :: number
  l_c2 :: number
  l_f1 :: number
  l_caps :: mask
  l_lat1 :: number
  l_lon1 :: number
  l_azi1 :: number
  l_salp1 :: number
  l_calp1 :: number
  l_dn1 :: number
  l_salp0 :: number
  l_calp0 :: number
  l_ssig1 :: number
  l_somg1 :: number
  l_csig1 :: number
  l_comg1 :: number
  l_k2 :: number
  l_A1m1 :: number
  l_C1a :: "number list option"
  l_B11 :: number
  l_stau1 :: number
  l_ctau1 :: number
  l_C1pa :: "number list option"
  l_A2m1 :: number
  l_C2a :: "number list option"
  l_B21 :: number
  l_C3a :: "number list option"
  l_A3c :: number
  l_B31 :: number
  l_C4a :: "number list option"
  l_A4 :: number
  l_B41 :: number

text \<open>
  The constructor, in two parts.  \<open>line_start\<close> is the constructor up to the assignment of
  \<open>_k2\<close>.  \<open>line_series\<close> is the rest: \<open>eps\<close> and the five blocks guarded by the
  capability bits, which read \<open>_caps\<close>, \<open>_k2\<close>, \<open>_ssig1\<close>, \<open>_csig1\<close>, \<open>_salp0\<close>,
  \<open>_calp0\<close>, \<open>_a\<close> and \<open>_f\<close> from the object.
\<close>

definition line_start ::
  "geodesic \<Rightarrow> number \<Rightarrow> number \<Rightarrow> number \<Rightarrow> mask \<Rightarrow> geodesic_line" where
  "line_start geod lat1 lon10 azi10 caps0 =
     (let caps = (if caps0 = 0 then ALL_mask else caps0 OR LATITUDE OR AZIMUTH);
          azi1 = AngRound (angNormalize azi10);
          lon1 = angNormalize lon10;
          alp1 = azi1 * degree;
          salp1 = (if eqn azi1 (Fin (- 180)) then Fin 0 else Math_sin alp1);
          calp1 = (if eqn \<bar>azi1\<bar> (Fin 90) then Fin 0 else Math_cos alp1);
          phi = lat1 * degree;
          sbet1 = g_f1 geod * Math_sin phi;
          cbet1 = (if eqn \<bar>lat1\<bar> (Fin 90) then tiny else Math_cos phi);
          t = hypot sbet1 cbet1;
          sbet1 = sbet1 / t;
          cbet1 = cbet1 / t;
          dn1 = Math_sqrt (Fin 1 + g_ep2 geod * sq sbet1);
          salp0 = salp1 * cbet1;
          calp0 = hypot calp1 (salp1 * sbet1);
          ssig1 = sbet1;
          somg1 = salp0 * sbet1;
          comg1 = (if \<not> eqn sbet1 (Fin 0) \<or> \<not> eqn calp1 (Fin 0) then cbet1 * calp1 else Fin 1);
          csig1 = comg1;
          t = hypot ssig1 csig1;
          ssig1 = ssig1 / t;
          csig1 = csig1 / t;
          k2 = sq calp0 * g_ep2 geod
      in \<lparr> l_a = g_a geod, l_f = g_f geod, l_b = g_b geod, l_c2 = g_c2 geod,
            l_f1 = g_f1 geod, l_caps = caps,
            l_lat1 = lat1, l_lon1 = lon1, l_azi1 = azi1,
            l_salp1 = salp1, l_calp1 = calp1, l_dn1 = dn1,
            l_salp0 = salp0, l_calp0 = calp0,
            l_ssig1 = ssig1, l_somg1 = somg1, l_csig1 = csig1, l_comg1 = comg1,
            l_k2 = k2,
            l_A1m1 = NaN, l_C1a = None, l_B11 = NaN, l_stau1 = NaN, l_ctau1 = NaN,
            l_C1pa = None,
            l_A2m1 = NaN, l_C2a = None, l_B21 = NaN,
            l_C3a = None, l_A3c = NaN, l_B31 = NaN,
            l_C4a = None, l_A4 = NaN, l_B41 = NaN \<rparr>)"

definition line_C1 :: "number \<Rightarrow> geodesic_line \<Rightarrow> geodesic_line" where
  "line_C1 eps l =
     (if l_caps l AND CAP_C1 \<noteq> 0 then
        (let C1a = C1f eps (new_Array (nC1 + 1));
             B11 = SinCosSeries True (l_ssig1 l) (l_csig1 l) C1a nC1;
             s = Math_sin B11;
             c = Math_cos B11
         in l \<lparr> l_A1m1 := A1m1f eps, l_C1a := Some C1a, l_B11 := B11,
                l_stau1 := l_ssig1 l * c + l_csig1 l * s,
                l_ctau1 := l_csig1 l * c - l_ssig1 l * s \<rparr>)
      else l)"

definition line_C1p :: "number \<Rightarrow> geodesic_line \<Rightarrow> geodesic_line" where
  "line_C1p eps l =
     (if l_caps l AND CAP_C1p \<noteq> 0 then
        l \<lparr> l_C1pa := Some (C1pf eps (new_Array (nC1p + 1))) \<rparr>
      else l)"

definition line_C2 :: "number \<Rightarrow> geodesic_line \<Rightarrow> geodesic_line" where
  "line_C2 eps l =
     (if l_caps l AND CAP_C2 \<noteq> 0 then
        (let C2a = C2f eps (new_Array (nC2 + 1))
         in l \<lparr> l_A2m1 := A2m1f eps, l_C2a := Some C2a,
                l_B21 := SinCosSeries True (l_ssig1 l) (l_csig1 l) C2a nC2 \<rparr>)
      else l)"

definition line_C3 :: "geodesic \<Rightarrow> number \<Rightarrow> geodesic_line \<Rightarrow> geodesic_line" where
  "line_C3 geod eps l =
     (if l_caps l AND CAP_C3 \<noteq> 0 then
        (let C3a = C3f geod eps (new_Array nC3)
         in l \<lparr> l_C3a := Some C3a,
                l_A3c := - l_f l * l_salp0 l * A3f geod eps,
                l_B31 := SinCosSeries True (l_ssig1 l) (l_csig1 l) C3a (nC3 - 1) \<rparr>)
      else l)"

definition line_C4 :: "geodesic \<Rightarrow> number \<Rightarrow> geodesic_line \<Rightarrow> geodesic_line" where
  "line_C4 geod eps l =
     (if l_caps l AND CAP_C4 \<noteq> 0 then
        (let C4a = C4f geod eps (new_Array nC4)
         in l \<lparr> l_C4a := Some C4a,
                l_A4 := sq (l_a l) * l_calp0 l * l_salp0 l * g_e2 geod,
                l_B41 := SinCosSeries False (l_ssig1 l) (l_csig1 l) C4a nC4 \<rparr>)
      else l)"

definition line_series :: "geodesic \<Rightarrow> geodesic_line \<Rightarrow> geodesic_line" where
  "line_series geod l =
     (let eps = l_k2 l / (Fin 2 * (Fin 1 + Math_sqrt (Fin 1 + l_k2 l)) + l_k2 l)
      in line_C4 geod eps (line_C3 geod eps (line_C2 eps (line_C1p eps (line_C1 eps l)))))"

definition GeodesicLine ::
  "geodesic \<Rightarrow> number \<Rightarrow> number \<Rightarrow> number \<Rightarrow> mask \<Rightarrow> geodesic_line" where
  "GeodesicLine geod lat1 lon1 azi1 caps =
     line_series geod (line_start geod lat1 lon1 azi1 caps)"

text \<open>
  \<open>SinCosSeries\<close> called on an array field of the line.  With an order of at least one
  the function indexes the array, which raises \<open>TypeError\<close> when the field is unset.
\<close>

definition SinCosSeries_field ::
  "bool \<Rightarrow> number \<Rightarrow> number \<Rightarrow> number list option \<Rightarrow> nat \<Rightarrow> error + number" where
  "SinCosSeries_field sinp sinx cosx c n =
     (case c of
        Some xs \<Rightarrow> Inr (SinCosSeries sinp sinx cosx xs n)
      | None \<Rightarrow> (if n = 0 then Inr (SinCosSeries sinp sinx cosx [] n) else Inl TypeError))"

text \<open>
  \<open>GenPosition\<close>, first part: \<open>sig12\<close>, \<open>ssig12\<close>, \<open>csig12\<close> and \<open>B12\<close> from the arc length
  or from the distance.
\<close>

definition position_sig12 ::
  "geodesic_line \<Rightarrow> bool \<Rightarrow> number \<Rightarrow> error + (number \<times> number \<times> number \<times> number)" where
  "position_sig12 l arcmode s12_a12 =
     (if arcmode then
        (let sig12 = s12_a12 * degree;
             s12a = \<bar>s12_a12\<bar>;
             s12a = s12a - Fin 180 * Math_floor (s12a / Fin 180);
             ssig12 = (if eqn s12a (Fin 0) then Fin 0 else Math_sin sig12);
             csig12 = (if eqn s12a (Fin 90) then Fin 0 else Math_cos sig12)
         in Inr (sig12, ssig12, csig12, Fin 0))
      else
        (let tau12 = s12_a12 / (l_b l * (Fin 1 + l_A1m1 l));
             s = Math_sin tau12;
             c = Math_cos tau12
         in bind_err (SinCosSeries_field True (l_stau1 l * c + l_ctau1 l * s)
                        (l_ctau1 l * c - l_stau1 l * s) (l_C1pa l) nC1p)
              (\<lambda>r.
                 let B12 = - r;
                     sig12 = tau12 - (B12 - l_B11 l);
                     ssig12 = Math_sin sig12;
                     csig12 = Math_cos sig12
                 in if Fin 0.01 < \<bar>l_f l\<bar> then
                      (let ssig2 = l_ssig1 l * csig12 + l_csig1 l * ssig12;
                           csig2 = l_csig1 l * csig12 - l_ssig1 l * ssig12
                       in bind_err (SinCosSeries_field True ssig2 csig2 (l_C1a l) nC1)
                            (\<lambda>B12.
                               let serr = (Fin 1 + l_A1m1 l) * (sig12 + (B12 - l_B11 l)) -
                                          s12_a12 / l_b l;
                                   sig12 = sig12 - serr / Math_sqrt (Fin 1 + l_k2 l * sq ssig2);
                                   ssig12 = Math_sin sig12;
                                   csig12 = Math_cos sig12
                               in Inr (sig12, ssig12, csig12, B12)))
                    else Inr (sig12, ssig12, csig12, B12))))"

text \<open>
  The rest of \<open>GenPosition\<close> is cut at the four places where it calls \<open>SinCosSeries\<close> on
  a field of the line, each under its test of \<open>outmask\<close>: the distance terms \<open>B12\<close> and
  \<open>AB1\<close>, the longitude, the reduced length and the geodesic scales, and the area.
\<close>

definition position_AB1 ::
  "geodesic_line \<Rightarrow> bool \<Rightarrow> mask \<Rightarrow> number \<Rightarrow> number \<Rightarrow> number \<Rightarrow> error + (number \<times> number)" where
  "position_AB1 l arcmode outmask ssig2 csig2 B120 =
     (if outmask AND (DISTANCE OR REDUCEDLENGTH OR GEODESICSCALE) \<noteq> 0 then
        bind_err
          (if arcmode \<or> Fin 0.01 < \<bar>l_f l\<bar>
           then SinCosSeries_field True ssig2 csig2 (l_C1a l) nC1
           else Inr B120)
          (\<lambda>B12. Inr (B12, (Fin 1 + l_A1m1 l) * (B12 - l_B11 l)))
      else Inr (B120, Fin 0))"

definition position_lon2 ::
  "geodesic_line \<Rightarrow> mask \<Rightarrow> number \<Rightarrow> number \<Rightarrow> number \<Rightarrow> number \<Rightarrow> object \<Rightarrow> error + object" where
  "position_lon2 l outmask omg12 sig12 ssig2 csig2 vals =
     (if outmask AND LONGITUDE \<noteq> 0 then
        bind_err (SinCosSeries_field True ssig2 csig2 (l_C3a l) (nC3 - 1))
          (\<lambda>B32.
             let lam12 = omg12 + l_A3c l * (sig12 + (B32 - l_B31 l));
                 lon12 = lam12 / degree;
                 lon12 = angNormalize2 lon12
             in Inr (vals(''lon2'' \<mapsto> angNormalize (l_lon1 l + lon12))))
      else Inr vals)"

definition position_m12 ::
  "geodesic_line \<Rightarrow> mask \<Rightarrow> number \<Rightarrow> number \<Rightarrow> number \<Rightarrow> number \<Rightarrow> number \<Rightarrow> number
   \<Rightarrow> object \<Rightarrow> error + object" where
  "position_m12 l outmask sig12 csig12 ssig2 csig2 dn2 AB1 vals =
     (if outmask AND (REDUCEDLENGTH OR GEODESICSCALE) \<noteq> 0 then
        bind_err (SinCosSeries_field True ssig2 csig2 (l_C2a l) nC2)
          (\<lambda>B22.
             let AB2 = (Fin 1 + l_A2m1 l) * (B22 - l_B21 l);
                 J12 = (l_A1m1 l - l_A2m1 l) * sig12 + (AB1 - AB2);
                 vals = (if outmask AND REDUCEDLENGTH \<noteq> 0 then
                           vals(''m12'' \<mapsto> l_b l *
                             ((dn2 * (l_csig1 l * ssig2) - l_dn1 l * (l_ssig1 l * csig2)) -
                              l_csig1 l * csig2 * J12))
                         else vals)
             in if outmask AND GEODESICSCALE \<noteq> 0 then
                  (let t = l_k2 l * (ssig2 - l_ssig1 l) * (ssig2 + l_ssig1 l) / (l_dn1 l + dn2)
                   in Inr (vals(''M12'' \<mapsto> csig12 +
                                  (t * ssig2 - csig2 * J12) * l_ssig1 l / l_dn1 l,
                                ''M21'' \<mapsto> csig12 -
                                  (t * l_ssig1 l - l_csig1 l * J12) * ssig2 / dn2)))
                else Inr vals)
      else Inr vals)"

definition position_S12 ::
  "geodesic_line \<Rightarrow> mask \<Rightarrow> number \<Rightarrow> number \<Rightarrow> number \<Rightarrow> number \<Rightarrow> number \<Rightarrow> number
   \<Rightarrow> object \<Rightarrow> error + object" where
  "position_S12 l outmask ssig12 csig12 ssig2 csig2 salp2 calp2 vals =
     (if outmask AND AREA \<noteq> 0 then
        bind_err (SinCosSeries_field False ssig2 csig2 (l_C4a l) nC4)
          (\<lambda>B42.
             let (salp12, calp12) =
                   (if eqn (l_calp0 l) (Fin 0) \<or> eqn (l_salp0 l) (Fin 0) then
                      (let salp12 = salp2 * l_calp1 l - calp2 * l_salp1 l;
                           calp12 = calp2 * l_calp1 l + salp2 * l_salp1 l
                       in if eqn salp12 (Fin 0) \<and> calp12 < Fin 0
                          then (tiny * l_calp1 l, Fin (- 1))
                          else (salp12, calp12))
                    else
                      (l_calp0 l * l_salp0 l *
                         (if csig12 \<le> Fin 0
                          then l_csig1 l * (Fin 1 - csig12) + ssig12 * l_ssig1 l
                          else ssig12 * (l_csig1 l * ssig12 / (Fin 1 + csig12) + l_ssig1 l)),
                       sq (l_salp0 l) + sq (l_calp0 l) * l_csig1 l * csig2))
             in Inr (vals(''S12'' \<mapsto> l_c2 l * Math_atan2 salp12 calp12 +
                                     l_A4 l * (B42 - l_B41 l))))
      else Inr vals)"

definition position_fields ::
  "geodesic_line \<Rightarrow> bool \<Rightarrow> number \<Rightarrow> mask \<Rightarrow> object
   \<Rightarrow> number \<times> number \<times> number \<times> number \<Rightarrow> error + object" where
  "position_fields l arcmode s12_a12 outmask vals0 r =
     (case r of (sig12, ssig12, csig12, B120) \<Rightarrow>
      let ssig2 = l_ssig1 l * csig12 + l_csig1 l * ssig12;
          csig2 = l_csig1 l * csig12 - l_ssig1 l * ssig12;
          dn2 = Math_sqrt (Fin 1 + l_k2 l * sq ssig2)
      in bind_err (position_AB1 l arcmode outmask ssig2 csig2 B120)
           (\<lambda>(B12, AB1).
              let sbet2 = l_calp0 l * ssig2;
                  cbet2 = hypot (l_salp0 l) (l_calp0 l * csig2);
                  (cbet2, csig2) = (if eqn cbet2 (Fin 0) then (tiny, tiny) else (cbet2, csig2));
                  somg2 = l_salp0 l * ssig2;
                  comg2 = csig2;
                  salp2 = l_salp0 l;
                  calp2 = l_calp0 l * csig2;
                  omg12 = Math_atan2 (somg2 * l_comg1 l - comg2 * l_somg1 l)
                                     (comg2 * l_comg1 l + somg2 * l_somg1 l);
                  vals = (if outmask AND DISTANCE \<noteq> 0 then
                            vals0(''s12'' \<mapsto>
                              (if arcmode then l_b l * ((Fin 1 + l_A1m1 l) * sig12 + AB1)
                               else s12_a12))
                          else vals0)
              in bind_err (position_lon2 l outmask omg12 sig12 ssig2 csig2 vals)
                   (\<lambda>vals.
                      let vals = (if outmask AND LATITUDE \<noteq> 0 then
                                    vals(''lat2'' \<mapsto> Math_atan2 sbet2 (l_f1 l * cbet2) / degree)
                                  else vals);
                          vals = (if outmask AND AZIMUTH \<noteq> 0 then
                                    vals(''azi2'' \<mapsto> Fin 0 - Math_atan2 (- salp2) calp2 / degree)
                                  else vals)
                      in bind_err (position_m12 l outmask sig12 csig12 ssig2 csig2 dn2 AB1 vals)
                           (\<lambda>vals.
                              bind_err (position_S12 l outmask ssig12 csig12 ssig2 csig2
                                          salp2 calp2 vals)
                                (\<lambda>vals.
                                   Inr (vals(''a12'' \<mapsto>
                                          (if arcmode then s12_a12 else sig12 / degree))))))))"

definition GenPosition :: "geodesic_line \<Rightarrow> bool \<Rightarrow> number \<Rightarrow> mask \<Rightarrow> error + object" where
  "GenPosition l arcmode s12_a12 outmask0 =
     (let vals = [''a12'' \<mapsto> Fin 0, ''s12'' \<mapsto> Fin 0, ''lon2'' \<mapsto> Fin 0, ''lat2'' \<mapsto> Fin 0,
                  ''azi2'' \<mapsto> Fin 0, ''m12'' \<mapsto> Fin 0, ''M12'' \<mapsto> Fin 0, ''M21'' \<mapsto> Fin 0];
          outmask = outmask0 AND (l_caps l AND OUT_ALL)
      in if \<not> (arcmode \<or> l_caps l AND DISTANCE_IN AND OUT_ALL \<noteq> 0) then
           Inr (vals(''a12'' \<mapsto> NaN))
         else
           bind_err (position_sig12 l arcmode s12_a12)
             (position_fields l arcmode s12_a12 outmask vals))"

section \<open>\<open>Interface\<close>\<close>

text \<open>
  The constructor of \<open>Interface\<close> builds its ellipsoid from \<open>ol.ellipsoid.WGS84.a\<close> and
  \<open>ol.ellipsoid.WGS84.flattening\<close>.  OpenLayers is not part of this library; the two
  values are the WGS84 constants it defines, the semi-major axis 6378137 and the
  flattening 1 / 298.257223563.
\<close>

definition WGS84_a :: number where
  "WGS84_a = Fin 6378137"

definition WGS84_flattening :: number where
  "WGS84_flattening = Fin (1 / 298.257223563)"

definition Interface_geodesic :: "error + geodesic" where
  "Interface_geodesic = Geodesic WGS84_a WGS84_flattening"

definition genDirect ::
  "geodesic \<Rightarrow> number \<Rightarrow> number \<Rightarrow> number \<Rightarrow> bool \<Rightarrow> number \<Rightarrow> mask \<Rightarrow> error + object" where
  "genDirect geod lat1 lon1 azi1 arcmode s12_a12 outmask =
     (let line = GeodesicLine geod lat1 lon1 azi1
                   (outmask OR (if arcmode then NONE else DISTANCE_IN))
      in GenPosition line arcmode s12_a12 outmask)"

section \<open>Notions used in the statements\<close>

text \<open>
  A line is consistent when every array that \<open>GenPosition\<close> can index under the
  capabilities of the line has been set.
\<close>

definition line_consistent :: "geodesic_line \<Rightarrow> bool" where
  "line_consistent l =
     (((l_caps l AND OUT_ALL) AND (DISTANCE OR REDUCEDLENGTH OR GEODESICSCALE) \<noteq> 0
         \<longrightarrow> l_C1a l \<noteq> None) \<and>
      (l_caps l AND DISTANCE_IN AND OUT_ALL \<noteq> 0 \<longrightarrow> l_C1pa l \<noteq> None \<and> l_C1a l \<noteq> None) \<and>
      ((l_caps l AND OUT_ALL) AND LONGITUDE \<noteq> 0 \<longrightarrow> l_C3a l \<noteq> None) \<and>
      ((l_caps l AND OUT_ALL) AND (REDUCEDLENGTH OR GEODESICSCALE) \<noteq> 0 \<longrightarrow> l_C2a l \<noteq> None) \<and>
      ((l_caps l AND OUT_ALL) AND AREA \<noteq> 0 \<longrightarrow> l_C4a l \<noteq> None))"

text \<open>
  The object \<open>GenPosition\<close> returns when it does not return early: the initial object
  with the fields selected by \<open>outmask\<close> assigned, and \<open>a12\<close> assigned last.
\<close>

definition position_shape ::
  "bool \<Rightarrow> number \<Rightarrow> mask \<Rightarrow> object \<Rightarrow> number \<Rightarrow> number \<Rightarrow> number \<Rightarrow> number \<Rightarrow> number \<Rightarrow> number
   \<Rightarrow> number \<Rightarrow> number \<Rightarrow> number \<Rightarrow> object" where
  "position_shape arcmode s outmask vals xs12 xlon2 xlat2 xazi2 xm12 xM12 xM21 xS12 xa12 =
     (let vals = (if outmask AND DISTANCE \<noteq> 0
                  then vals(''s12'' \<mapsto> (if arcmode then xs12 else s)) else vals);
          vals = (if outmask AND LONGITUDE \<noteq> 0 then vals(''lon2'' \<mapsto> xlon2) else vals);
          vals = (if outmask AND LATITUDE \<noteq> 0 then vals(''lat2'' \<mapsto> xlat2) else vals);
          vals = (if outmask AND AZIMUTH \<noteq> 0 then vals(''azi2'' \<mapsto> xazi2) else vals);
          vals = (if outmask AND REDUCEDLENGTH \<noteq> 0 then vals(''m12'' \<mapsto> xm12) else vals);
          vals = (if outmask AND GEODESICSCALE \<noteq> 0
                  then vals(''M12'' \<mapsto> xM12, ''M21'' \<mapsto> xM21) else vals);
          vals = (if outmask AND AREA \<noteq> 0 then vals(''S12'' \<mapsto> xS12) else vals)
      in vals(''a12'' \<mapsto> (if arcmode then s else xa12)))"

section \<open>Arithmetic on finite numbers\<close>

lemma Fin_minus [simp]: "Fin a - Fin b = Fin (a - b)"
  by (simp add: minus_number_def)

section \<open>The capability masks\<close>

text \<open>
  C4.  Each output flag contains exactly the capability bits of the table: \<open>LATITUDE\<close>
  and \<open>AZIMUTH\<close> none, \<open>LONGITUDE\<close> \<open>C3\<close>, \<open>DISTANCE\<close> \<open>C1\<close>, \<open>DISTANCE_IN\<close> \<open>C1\<close> and
  \<open>C1p\<close>, \<open>REDUCEDLENGTH\<close> and \<open>GEODESICSCALE\<close> \<open>C1\<close> and \<open>C2\<close>, \<open>AREA\<close> \<open>C4\<close>.  The part
  of a flag inside \<open>CAP_ALL\<close> is all of its capability bits, since \<open>CAP_ALL\<close> is the
  union of the five capability bits, which are non-zero and pairwise disjoint.
\<close>

theorem mask_implication_table:
  "LATITUDE AND CAP_ALL = CAP_NONE \<and>
   LONGITUDE AND CAP_ALL = CAP_C3 \<and>
   AZIMUTH AND CAP_ALL = CAP_NONE \<and>
   DISTANCE AND CAP_ALL = CAP_C1 \<and>
   DISTANCE_IN AND CAP_ALL = CAP_C1 OR CAP_C1p \<and>
   REDUCEDLENGTH AND CAP_ALL = CAP_C1 OR CAP_C2 \<and>
   GEODESICSCALE AND CAP_ALL = CAP_C1 OR CAP_C2 \<and>
   AREA AND CAP_ALL = CAP_C4 \<and>
   CAP_NONE = 0 \<and>
   CAP_ALL = CAP_C1 OR CAP_C1p OR CAP_C2 OR CAP_C3 OR CAP_C4 \<and>
   CAP_C1 \<noteq> 0 \<and> CAP_C1p \<noteq> 0 \<and> CAP_C2 \<noteq> 0 \<and> CAP_C3 \<noteq> 0 \<and> CAP_C4 \<noteq> 0 \<and>
   CAP_C1 AND CAP_C1p = 0 \<and> CAP_C1 AND CAP_C2 = 0 \<and> CAP_C1 AND CAP_C3 = 0 \<and>
   CAP_C1 AND CAP_C4 = 0 \<and> CAP_C1p AND CAP_C2 = 0 \<and> CAP_C1p AND CAP_C3 = 0 \<and>
   CAP_C1p AND CAP_C4 = 0 \<and> CAP_C2 AND CAP_C3 = 0 \<and> CAP_C2 AND CAP_C4 = 0 \<and>
   CAP_C3 AND CAP_C4 = 0"
  by (simp add: mask_defs)

section \<open>Angle normalisation\<close>

text \<open>
  C8, as amended.  On every finite \<open>x\<close>, \<open>angNormalize\<close> returns \<open>x\<close>, \<open>x - 360\<close> or
  \<open>x + 360\<close>, so the result is congruent to \<open>x\<close> modulo 360; the result lies in
  \<open>[-180, 180)\<close> exactly when \<open>x\<close> lies in \<open>[-540, 540)\<close>, the restricted input range of
  the function.
\<close>

theorem angNormalize_range:
  "\<exists>r. angNormalize (Fin x) = Fin r \<and>
        (r = x \<or> r = x - 360 \<or> r = x + 360) \<and>
        ((- 180 \<le> r \<and> r < 180) = (- 540 \<le> x \<and> x < 540))"
  by (auto simp add: angNormalize_def)

text \<open>
  C8 as stated fails: at \<open>x = 1000\<close> the function subtracts 360 once and returns 640,
  which is outside \<open>[-180, 180)\<close>.
\<close>

theorem angNormalize_counterexample:
  "angNormalize (Fin 1000) = Fin 640 \<and> \<not> (angNormalize (Fin 1000) < Fin 180)"
  by (simp add: angNormalize_def)

section \<open>Results and exceptions\<close>

lemma bind_err_Inr [simp]: "bind_err (Inr x) k = k x"
  by (simp add: bind_err_def)

lemma bind_err_Inl [simp]: "bind_err (Inl e) k = Inl e"
  by (simp add: bind_err_def)

lemma bind_err_eq_Inr: "(bind_err r k = Inr v) = (\<exists>x. r = Inr x \<and> k x = Inr v)"
  by (cases r) simp_all

subsection \<open>The fields the constructor sets\<close>

lemma line_start_fields:
  "l_caps (line_start g lat1 lon1 azi1 c) =
     (if c = 0 then ALL_mask else c OR LATITUDE OR AZIMUTH)"
  "l_C1a (line_start g lat1 lon1 azi1 c) = None"
  "l_C1pa (line_start g lat1 lon1 azi1 c) = None"
  "l_C2a (line_start g lat1 lon1 azi1 c) = None"
  "l_C3a (line_start g lat1 lon1 azi1 c) = None"
  "l_C4a (line_start g lat1 lon1 azi1 c) = None"
  by (simp_all only: line_start_def Let_def geodesic_line.select_convs)

lemma line_series_caps: "l_caps (line_series g l) = l_caps l"
  by (simp add: line_series_def line_C1_def line_C1p_def line_C2_def line_C3_def line_C4_def Let_def)

lemma line_series_arrays:
  "(l_C1a (line_series g l) = None) = (l_caps l AND CAP_C1 = 0 \<and> l_C1a l = None)"
  "(l_C1pa (line_series g l) = None) = (l_caps l AND CAP_C1p = 0 \<and> l_C1pa l = None)"
  "(l_C2a (line_series g l) = None) = (l_caps l AND CAP_C2 = 0 \<and> l_C2a l = None)"
  "(l_C3a (line_series g l) = None) = (l_caps l AND CAP_C3 = 0 \<and> l_C3a l = None)"
  "(l_C4a (line_series g l) = None) = (l_caps l AND CAP_C4 = 0 \<and> l_C4a l = None)"
  by (simp_all add: line_series_def line_C1_def line_C1p_def line_C2_def line_C3_def
        line_C4_def Let_def)

lemma GeodesicLine_caps:
  "l_caps (GeodesicLine g lat1 lon1 azi1 c) =
     (if c = 0 then ALL_mask else c OR LATITUDE OR AZIMUTH)"
  by (simp add: GeodesicLine_def line_series_caps line_start_fields)

lemma GeodesicLine_arrays:
  "(l_C1a (GeodesicLine g lat1 lon1 azi1 c) = None) =
     (l_caps (GeodesicLine g lat1 lon1 azi1 c) AND CAP_C1 = 0)"
  "(l_C1pa (GeodesicLine g lat1 lon1 azi1 c) = None) =
     (l_caps (GeodesicLine g lat1 lon1 azi1 c) AND CAP_C1p = 0)"
  "(l_C2a (GeodesicLine g lat1 lon1 azi1 c) = None) =
     (l_caps (GeodesicLine g lat1 lon1 azi1 c) AND CAP_C2 = 0)"
  "(l_C3a (GeodesicLine g lat1 lon1 azi1 c) = None) =
     (l_caps (GeodesicLine g lat1 lon1 azi1 c) AND CAP_C3 = 0)"
  "(l_C4a (GeodesicLine g lat1 lon1 azi1 c) = None) =
     (l_caps (GeodesicLine g lat1 lon1 azi1 c) AND CAP_C4 = 0)"
  by (simp_all add: GeodesicLine_def line_series_caps line_series_arrays line_start_fields)

subsection \<open>The parts of \<open>GenPosition\<close>\<close>

lemma SinCosSeries_field_Some:
  "c \<noteq> None \<Longrightarrow> \<exists>x. SinCosSeries_field sinp sinx cosx c n = Inr x"
  by (cases c) (simp_all add: SinCosSeries_field_def)

lemma position_sig12_arc: "\<exists>r. position_sig12 l True s = Inr r"
  by (simp add: position_sig12_def Let_def)

lemma position_sig12_returns:
  "l_C1pa l \<noteq> None \<Longrightarrow> l_C1a l \<noteq> None \<Longrightarrow> \<exists>r. position_sig12 l arcmode s = Inr r"
  by (cases "l_C1pa l"; cases "l_C1a l")
     (simp_all add: position_sig12_def SinCosSeries_field_def Let_def)

lemma position_AB1_returns:
  "outmask AND (DISTANCE OR REDUCEDLENGTH OR GEODESICSCALE) \<noteq> 0 \<longrightarrow> l_C1a l \<noteq> None \<Longrightarrow>
   \<exists>r. position_AB1 l arcmode outmask ssig2 csig2 B12 = Inr r"
  by (cases "l_C1a l") (auto simp add: position_AB1_def SinCosSeries_field_def)

lemma position_lon2_returns:
  "outmask AND LONGITUDE \<noteq> 0 \<longrightarrow> l_C3a l \<noteq> None \<Longrightarrow>
   \<exists>r. position_lon2 l outmask omg12 sig12 ssig2 csig2 vals = Inr r"
  by (cases "l_C3a l") (auto simp add: position_lon2_def SinCosSeries_field_def Let_def)

lemma position_lon2_frame:
  "position_lon2 l outmask omg12 sig12 ssig2 csig2 vals = Inr v \<Longrightarrow>
   k \<noteq> ''lon2'' \<or> outmask AND LONGITUDE = 0 \<Longrightarrow> v k = vals k"
  by (auto simp add: position_lon2_def bind_err_eq_Inr Let_def split: if_splits)

lemma position_m12_returns:
  "outmask AND (REDUCEDLENGTH OR GEODESICSCALE) \<noteq> 0 \<longrightarrow> l_C2a l \<noteq> None \<Longrightarrow>
   \<exists>r. position_m12 l outmask sig12 csig12 ssig2 csig2 dn2 AB1 vals = Inr r"
  by (cases "l_C2a l") (auto simp add: position_m12_def SinCosSeries_field_def Let_def)

lemma position_m12_frame:
  "position_m12 l outmask sig12 csig12 ssig2 csig2 dn2 AB1 vals = Inr v \<Longrightarrow>
   k \<notin> {''m12'', ''M12'', ''M21''} \<or> outmask AND (REDUCEDLENGTH OR GEODESICSCALE) = 0 \<Longrightarrow>
   v k = vals k"
  by (auto simp add: position_m12_def bind_err_eq_Inr Let_def split: if_splits)

lemma position_S12_returns:
  "outmask AND AREA \<noteq> 0 \<longrightarrow> l_C4a l \<noteq> None \<Longrightarrow>
   \<exists>r. position_S12 l outmask ssig12 csig12 ssig2 csig2 salp2 calp2 vals = Inr r"
  by (cases "l_C4a l")
     (auto simp add: position_S12_def SinCosSeries_field_def Let_def split: prod.splits)

lemma position_S12_frame:
  "position_S12 l outmask ssig12 csig12 ssig2 csig2 salp2 calp2 vals = Inr v \<Longrightarrow>
   k \<noteq> ''S12'' \<or> outmask AND AREA = 0 \<Longrightarrow> v k = vals k"
  by (auto simp add: position_S12_def bind_err_eq_Inr Let_def split: if_splits prod.splits)

lemma and_or_eq_0: "(x AND (a OR b) = 0) = (x AND a = 0 \<and> x AND b = 0)" for x :: mask
  by (simp add: bit.conj_disj_distrib or_eq_0_iff)

lemma position_lon2_shape:
  "position_lon2 l outmask omg12 sig12 ssig2 csig2 vals = Inr v \<Longrightarrow>
   \<exists>x. v = (if outmask AND LONGITUDE \<noteq> 0 then vals(''lon2'' \<mapsto> x) else vals)"
  by (cases "outmask AND LONGITUDE = 0")
     (fastforce simp add: position_lon2_def bind_err_eq_Inr Let_def)+

lemma position_m12_shape:
  "position_m12 l outmask sig12 csig12 ssig2 csig2 dn2 AB1 vals = Inr v \<Longrightarrow>
   \<exists>x y z. v =
     (let vals' = (if outmask AND REDUCEDLENGTH \<noteq> 0 then vals(''m12'' \<mapsto> x) else vals)
      in if outmask AND GEODESICSCALE \<noteq> 0 then vals'(''M12'' \<mapsto> y, ''M21'' \<mapsto> z) else vals')"
  by (cases "outmask AND REDUCEDLENGTH = 0"; cases "outmask AND GEODESICSCALE = 0")
     (fastforce simp add: position_m12_def bind_err_eq_Inr Let_def and_or_eq_0)+

lemma position_S12_shape:
  "position_S12 l outmask ssig12 csig12 ssig2 csig2 salp2 calp2 vals = Inr v \<Longrightarrow>
   \<exists>x. v = (if outmask AND AREA \<noteq> 0 then vals(''S12'' \<mapsto> x) else vals)"
  by (cases "outmask AND AREA = 0")
     (fastforce simp add: position_S12_def bind_err_eq_Inr Let_def case_prod_beta)+

lemma position_fields_shape:
  "position_fields l arcmode s outmask vals r = Inr v \<Longrightarrow>
   \<exists>xs12 xlon2 xlat2 xazi2 xm12 xM12 xM21 xS12 xa12.
      v = position_shape arcmode s outmask vals xs12 xlon2 xlat2 xazi2 xm12 xM12 xM21 xS12 xa12"
  apply (cases r)
  apply (clarsimp simp: position_fields_def bind_err_eq_Inr Let_def case_prod_beta
           split del: if_split)
  apply (drule position_lon2_shape)
  apply (drule position_m12_shape)
  apply (drule position_S12_shape)
  apply (elim exE)
  apply (simp only: position_shape_def Let_def)
  apply (intro exI)
  apply (rule refl)
  done

lemma bind_err_returns:
  "\<exists>x. r = Inr x \<Longrightarrow> (\<And>x. \<exists>v. k x = Inr v) \<Longrightarrow> \<exists>v. bind_err r k = Inr v"
  by auto

lemma and_and_neq_0: "(m AND c) AND x \<noteq> 0 \<Longrightarrow> c AND x \<noteq> 0" for m :: mask
  by (auto simp add: and.assoc)

lemma position_fields_returns:
  assumes "outmask AND (DISTANCE OR REDUCEDLENGTH OR GEODESICSCALE) \<noteq> 0 \<longrightarrow> l_C1a l \<noteq> None"
    and "outmask AND LONGITUDE \<noteq> 0 \<longrightarrow> l_C3a l \<noteq> None"
    and "outmask AND (REDUCEDLENGTH OR GEODESICSCALE) \<noteq> 0 \<longrightarrow> l_C2a l \<noteq> None"
    and "outmask AND AREA \<noteq> 0 \<longrightarrow> l_C4a l \<noteq> None"
  shows "\<exists>v. position_fields l arcmode s outmask vals r = Inr v"
proof -
  obtain sig12 ssig12 csig12 B120 where r: "r = (sig12, ssig12, csig12, B120)"
    by (cases r) auto
  show ?thesis
    unfolding position_fields_def r
    apply (simp only: prod.case Let_def)
    apply (rule bind_err_returns, rule position_AB1_returns, rule assms(1))
    apply (simp only: case_prod_beta)
    apply (rule bind_err_returns, rule position_lon2_returns, rule assms(2))
    apply (rule bind_err_returns, rule position_m12_returns, rule assms(3))
    apply (rule bind_err_returns, rule position_S12_returns, rule assms(4))
    apply blast
    done
qed

lemma GenPosition_returns:
  assumes "line_consistent l"
  shows "\<exists>v. GenPosition l arcmode s m = Inr v"
proof (cases "\<not> (arcmode \<or> l_caps l AND DISTANCE_IN AND OUT_ALL \<noteq> 0)")
  case True
  then show ?thesis by (simp add: GenPosition_def Let_def)
next
  case False
  have sig: "\<exists>r. position_sig12 l arcmode s = Inr r"
  proof (cases arcmode)
    case True
    then show ?thesis using position_sig12_arc by simp
  next
    case f: False
    with False assms have "l_C1pa l \<noteq> None" "l_C1a l \<noteq> None"
      by (simp_all add: line_consistent_def)
    then show ?thesis by (rule position_sig12_returns)
  qed
  let ?o = "m AND (l_caps l AND OUT_ALL)"
  have pf: "\<exists>v. position_fields l arcmode s ?o vals r = Inr v" for vals r
  proof (rule position_fields_returns)
    show "?o AND (DISTANCE OR REDUCEDLENGTH OR GEODESICSCALE) \<noteq> 0 \<longrightarrow> l_C1a l \<noteq> None"
      using assms and_and_neq_0 [of m "l_caps l AND OUT_ALL"]
      by (auto simp add: line_consistent_def)
    show "?o AND LONGITUDE \<noteq> 0 \<longrightarrow> l_C3a l \<noteq> None"
      using assms and_and_neq_0 [of m "l_caps l AND OUT_ALL"]
      by (auto simp add: line_consistent_def)
    show "?o AND (REDUCEDLENGTH OR GEODESICSCALE) \<noteq> 0 \<longrightarrow> l_C2a l \<noteq> None"
      using assms and_and_neq_0 [of m "l_caps l AND OUT_ALL"]
      by (auto simp add: line_consistent_def)
    show "?o AND AREA \<noteq> 0 \<longrightarrow> l_C4a l \<noteq> None"
      using assms and_and_neq_0 [of m "l_caps l AND OUT_ALL"]
      by (auto simp add: line_consistent_def)
  qed
  from sig obtain r where "position_sig12 l arcmode s = Inr r" by blast
  with pf [of _ r] False show ?thesis
    by (simp add: GenPosition_def Let_def)
qed

section \<open>The fields \<open>GenInverse\<close> assigns\<close>

lemma inverse_meridian_frame:
  "k \<notin> {''M12'', ''M21'', ''a12''} \<Longrightarrow>
   so_vals (inverse_meridian g su m C1a C2a so) k = so_vals so k"
  by (simp add: inverse_meridian_def Let_def if_distrib [of so_vals] if_distribR
        cong: if_cong split del: if_split)



lemma inverse_solve_frame:
  "k \<notin> {''M12'', ''M21'', ''a12''} \<Longrightarrow>
   so_vals (inverse_solve g su m vals) k = vals k"
  by (simp add: inverse_solve_def Let_def inverse_meridian_frame if_distrib [of so_vals]
        if_distribR cong: if_cong split del: if_split)

lemma inverse_output_DISTANCE:
  "inverse_output g su so (DISTANCE AND OUT_ALL) = (so_vals so)(''s12'' \<mapsto> Fin 0 + so_s12x so)"
  by (cases "su_swapp su < Fin 0") (simp_all add: inverse_output_def Let_def mask_defs)

section \<open>The ellipsoid of \<open>Interface\<close>\<close>

lemma Geodesic_fields:
  assumes "0 < ar" "fr < 1"
  shows "\<exists>g. Geodesic (Fin ar) (Fin fr) = Inr g \<and>
           g_a g = Fin ar \<and> g_f g = Fin fr \<and> g_f1 g = Fin (1 - fr) \<and>
           g_e2 g = Fin (fr * (2 - fr)) \<and>
           g_ep2 g = Fin (fr * (2 - fr) / ((1 - fr) * (1 - fr))) \<and>
           g_n g = Fin (fr / (2 - fr)) \<and>
           g_b g = Fin (ar * (1 - fr))"
  using assms
  by (simp add: Geodesic_def Let_def sq_def zero_less_mult_iff split del: if_split)

lemma Interface_geodesic_fields:
  "\<exists>g. Interface_geodesic = Inr g \<and>
       g_a g = Fin 6378137 \<and> g_f g = Fin (1 / 298.257223563) \<and>
       g_f1 g = Fin (1 - 1 / 298.257223563) \<and>
       g_b g = Fin (6378137 * (1 - 1 / 298.257223563))"
  using Geodesic_fields [of 6378137 "1 / 298.257223563"]
  unfolding Interface_geodesic_def WGS84_a_def WGS84_flattening_def
  by auto

section \<open>The iteration budget of \<open>GenInverse\<close>\<close>

lemma inverse_body_numit_Newton:
  "inverse_body g su C1a C2a C3a st = Newton st' \<Longrightarrow> st_numit st < maxit1"
  by (simp add: inverse_body_def Let_def split: if_splits)

lemma inverse_passes_bound:
  "inverse_passes g su C1a C2a C3a st \<le> maxit2 - st_numit st"
proof (induction g su C1a C2a C3a st rule: inverse_passes.induct)
  case (1 g su C1a C2a C3a st)
  show ?case
  proof (cases "st_numit st < maxit2")
    case False
    then show ?thesis by (simp add: inverse_passes.simps)
  next
    case True
    show ?thesis
    proof (cases "inverse_body g su C1a C2a C3a st")
      case (Break st')
      with True show ?thesis by (simp add: inverse_passes.simps)
    next
      case (Newton st')
      with True "1.IH"(1) [OF True Newton] show ?thesis
        by (simp add: inverse_passes.simps)
    next
      case (Bisect st')
      with True "1.IH"(2) [OF True Bisect] show ?thesis
        by (simp add: inverse_passes.simps)
    qed
  qed
qed

text \<open>
  C3.  \<open>GenInverse\<close> is a total function: its loop is \<open>inverse_loop\<close>, defined by
  recursion on \<open>maxit2 - numit\<close>, and no statement of it raises.  From any state the
  loop enters its body at most \<open>maxit2 - numit\<close> times, where \<open>maxit1 = 20\<close> and
  \<open>maxit2 = 20 + 53 + 10\<close>; started at \<open>numit = 0\<close>, as \<open>GenInverse\<close> starts it, that is at
  most 83 times.  A pass with \<open>numit\<close> at or beyond \<open>maxit1\<close> never takes the Newton
  step, and with \<open>numit\<close> at or beyond \<open>maxit2\<close> the loop returns the state it has, which
  \<open>GenInverse\<close> then uses as its estimate.
\<close>

theorem inverse_loop_budget:
  "inverse_passes g su C1a C2a C3a st \<le> maxit2 - st_numit st \<and>
   maxit1 = 20 \<and> maxit2 = 20 + 53 + 10 \<and>
   (st_numit st = 0 \<longrightarrow> inverse_passes g su C1a C2a C3a st \<le> 83) \<and>
   (maxit1 \<le> st_numit st \<longrightarrow> \<not> is_Newton (inverse_body g su C1a C2a C3a st)) \<and>
   (maxit2 \<le> st_numit st \<longrightarrow> inverse_loop g su C1a C2a C3a st = st)"
proof -
  have "maxit1 \<le> st_numit st \<longrightarrow> \<not> is_Newton (inverse_body g su C1a C2a C3a st)"
    using inverse_body_numit_Newton [of g su C1a C2a C3a st]
    by (cases "inverse_body g su C1a C2a C3a st") simp_all
  moreover have "maxit2 \<le> st_numit st \<longrightarrow> inverse_loop g su C1a C2a C3a st = st"
    by (simp add: inverse_loop.simps)
  moreover have "st_numit st = 0 \<longrightarrow> inverse_passes g su C1a C2a C3a st \<le> 83"
  proof
    assume "st_numit st = 0"
    with inverse_passes_bound [of g su C1a C2a C3a st] show "inverse_passes g su C1a C2a C3a st \<le> 83"
      by (simp add: maxit1_def maxit2_def GeoMath_digits_def)
  qed
  ultimately show ?thesis
    using inverse_passes_bound [of g su C1a C2a C3a st]
    by (simp add: maxit1_def maxit2_def GeoMath_digits_def)
qed

text \<open>
  The budget on the WGS84 ellipsoid, for the two points of the inverse test, at the
  initial state of the loop and at the same state with the budget exhausted.
\<close>

theorem inverse_loop_budget_witness:
  "case Interface_geodesic of Inl e \<Rightarrow> False | Inr g \<Rightarrow>
     (let su = inverse_setup g (Fin 35.6894) (Fin 139.6916) (Fin 40.4349504) (Fin 49.867623);
          C1a = new_Array (nC1 + 1); C2a = new_Array (nC2 + 1); C3a = new_Array nC3;
          st = \<lparr> st_numit = 0, st_tripn = False, st_tripb = False,
                  st_salp1 = Fin 1, st_calp1 = Fin 0,
                  st_salp1a = tiny, st_calp1a = Fin 1,
                  st_salp1b = tiny, st_calp1b = Fin (- 1),
                  st_salp2 = Fin 0, st_calp2 = Fin 0, st_sig12 = Fin (- 1),
                  st_ssig1 = Fin 0, st_csig1 = Fin 0, st_ssig2 = Fin 0, st_csig2 = Fin 0,
                  st_eps = Fin 0, st_omg12 = Fin 0 \<rparr>;
          st' = st \<lparr> st_numit := 83 \<rparr>
      in st_numit st = 0 \<and> inverse_passes g su C1a C2a C3a st \<le> 83 \<and>
         maxit1 \<le> st_numit st' \<and> maxit2 \<le> st_numit st' \<and>
         \<not> is_Newton (inverse_body g su C1a C2a C3a st') \<and>
         inverse_loop g su C1a C2a C3a st' = st' \<and>
         inverse_passes g su C1a C2a C3a st' \<le> 0)"
proof -
  obtain g where g: "Interface_geodesic = Inr g"
    using Interface_geodesic_fields by blast
  define su where "su = inverse_setup g (Fin 35.6894) (Fin 139.6916) (Fin 40.4349504) (Fin 49.867623)"
  define C1a where "C1a = new_Array (nC1 + 1)"
  define C2a where "C2a = new_Array (nC2 + 1)"
  define C3a where "C3a = new_Array nC3"
  define st where "st = \<lparr> st_numit = 0, st_tripn = False, st_tripb = False,
                  st_salp1 = Fin 1, st_calp1 = Fin 0,
                  st_salp1a = tiny, st_calp1a = Fin 1,
                  st_salp1b = tiny, st_calp1b = Fin (- 1),
                  st_salp2 = Fin 0, st_calp2 = Fin 0, st_sig12 = Fin (- 1),
                  st_ssig1 = Fin 0, st_csig1 = Fin 0, st_ssig2 = Fin 0, st_csig2 = Fin 0,
                  st_eps = Fin 0, st_omg12 = Fin 0 \<rparr>"
  define st' where "st' = st \<lparr> st_numit := 83 \<rparr>"
  have n0: "st_numit st = 0"
    by (simp add: st_def)
  have n83: "st_numit st' = 83"
    by (simp add: st'_def)
  have m1: "maxit1 \<le> st_numit st'"
    unfolding n83 by (simp add: maxit1_def)
  have m2: "maxit2 \<le> st_numit st'"
    unfolding n83 by (simp add: maxit1_def maxit2_def GeoMath_digits_def)
  note b0 = inverse_loop_budget [of g su C1a C2a C3a st]
  note b1 = inverse_loop_budget [of g su C1a C2a C3a st']
  have p0: "inverse_passes g su C1a C2a C3a st \<le> 83"
    using b0 n0 by blast
  have nn: "\<not> is_Newton (inverse_body g su C1a C2a C3a st')"
    using b1 m1 by blast
  have lp: "inverse_loop g su C1a C2a C3a st' = st'"
    using b1 m2 by blast
  have q: "inverse_passes g su C1a C2a C3a st' \<le> maxit2 - st_numit st'"
    using b1 by blast
  have p1: "inverse_passes g su C1a C2a C3a st' \<le> 0"
    using q m2 by linarith
  have "st_numit st = 0 \<and> inverse_passes g su C1a C2a C3a st \<le> 83 \<and>
         maxit1 \<le> st_numit st' \<and> maxit2 \<le> st_numit st' \<and>
         \<not> is_Newton (inverse_body g su C1a C2a C3a st') \<and>
         inverse_loop g su C1a C2a C3a st' = st' \<and>
         inverse_passes g su C1a C2a C3a st' \<le> 0"
    using n0 p0 m1 m2 nn lp p1 by (intro conjI)
  then show ?thesis
    unfolding g sum.case Let_def su_def C1a_def C2a_def C3a_def st'_def st_def .
qed

section \<open>The object \<open>GenPosition\<close> returns\<close>

lemma GenPosition_fields:
  assumes "GenPosition l arcmode s m = Inr v"
    and "arcmode \<or> l_caps l AND DISTANCE_IN AND OUT_ALL \<noteq> 0"
  shows "\<exists>xs12 xlon2 xlat2 xazi2 xm12 xM12 xM21 xS12 xa12.
      v = position_shape arcmode s (m AND (l_caps l AND OUT_ALL))
            [''a12'' \<mapsto> Fin 0, ''s12'' \<mapsto> Fin 0, ''lon2'' \<mapsto> Fin 0, ''lat2'' \<mapsto> Fin 0,
             ''azi2'' \<mapsto> Fin 0, ''m12'' \<mapsto> Fin 0, ''M12'' \<mapsto> Fin 0, ''M21'' \<mapsto> Fin 0]
            xs12 xlon2 xlat2 xazi2 xm12 xM12 xM21 xS12 xa12"
proof -
  from assms obtain r where "position_fields l arcmode s (m AND (l_caps l AND OUT_ALL))
      [''a12'' \<mapsto> Fin 0, ''s12'' \<mapsto> Fin 0, ''lon2'' \<mapsto> Fin 0, ''lat2'' \<mapsto> Fin 0,
       ''azi2'' \<mapsto> Fin 0, ''m12'' \<mapsto> Fin 0, ''M12'' \<mapsto> Fin 0, ''M21'' \<mapsto> Fin 0] r = Inr v"
    by (auto simp add: GenPosition_def Let_def bind_err_eq_Inr)
  from position_fields_shape [OF this] show ?thesis .
qed

lemma GenPosition_unavailable:
  "l_caps l AND DISTANCE_IN AND OUT_ALL = 0 \<Longrightarrow>
   GenPosition l False s12 outmask =
     Inr [''a12'' \<mapsto> NaN, ''s12'' \<mapsto> Fin 0, ''lon2'' \<mapsto> Fin 0, ''lat2'' \<mapsto> Fin 0,
          ''azi2'' \<mapsto> Fin 0, ''m12'' \<mapsto> Fin 0, ''M12'' \<mapsto> Fin 0, ''M21'' \<mapsto> Fin 0]"
  by (simp add: GenPosition_def Let_def fun_upd_twist)

lemma GenPosition_arc_a12:
  assumes "GenPosition l True a12 m = Inr v"
  shows "v ''a12'' = Some a12"
  using GenPosition_fields [OF assms] by (auto simp add: position_shape_def Let_def)

lemma GenPosition_distance_s12:
  assumes "GenPosition l False s m = Inr v"
    and "l_caps l AND DISTANCE_IN AND OUT_ALL \<noteq> 0"
    and "(m AND (l_caps l AND OUT_ALL)) AND DISTANCE \<noteq> 0"
  shows "v ''s12'' = Some s"
proof -
  from GenPosition_fields [OF assms(1)] assms(2)
  obtain xs12 xlon2 xlat2 xazi2 xm12 xM12 xM21 xS12 xa12 where
    "v = position_shape False s (m AND (l_caps l AND OUT_ALL))
            [''a12'' \<mapsto> Fin 0, ''s12'' \<mapsto> Fin 0, ''lon2'' \<mapsto> Fin 0, ''lat2'' \<mapsto> Fin 0,
             ''azi2'' \<mapsto> Fin 0, ''m12'' \<mapsto> Fin 0, ''M12'' \<mapsto> Fin 0, ''M21'' \<mapsto> Fin 0]
            xs12 xlon2 xlat2 xazi2 xm12 xM12 xM21 xS12 xa12"
    by blast
  with assms(3) show ?thesis
    by (simp add: position_shape_def Let_def)
qed

lemma DISTANCE_only:
  fixes c :: mask
  shows "(DISTANCE AND (c AND OUT_ALL)) AND LONGITUDE = 0"
    and "(DISTANCE AND (c AND OUT_ALL)) AND LATITUDE = 0"
    and "(DISTANCE AND (c AND OUT_ALL)) AND AZIMUTH = 0"
    and "(DISTANCE AND (c AND OUT_ALL)) AND REDUCEDLENGTH = 0"
    and "(DISTANCE AND (c AND OUT_ALL)) AND GEODESICSCALE = 0"
    and "(DISTANCE AND (c AND OUT_ALL)) AND AREA = 0"
proof -
  have *: "(DISTANCE AND (c AND OUT_ALL)) AND x = c AND ((DISTANCE AND OUT_ALL) AND x)" for x
    by (simp add: ac_simps)
  show "(DISTANCE AND (c AND OUT_ALL)) AND LONGITUDE = 0"
    and "(DISTANCE AND (c AND OUT_ALL)) AND LATITUDE = 0"
    and "(DISTANCE AND (c AND OUT_ALL)) AND AZIMUTH = 0"
    and "(DISTANCE AND (c AND OUT_ALL)) AND REDUCEDLENGTH = 0"
    and "(DISTANCE AND (c AND OUT_ALL)) AND GEODESICSCALE = 0"
    and "(DISTANCE AND (c AND OUT_ALL)) AND AREA = 0"
    unfolding * by (simp_all add: mask_defs)
qed

lemma GenPosition_DISTANCE_frame:
  assumes "GenPosition l arcmode s DISTANCE = Inr v"
  shows "v ''lat2'' = Some (Fin 0) \<and> v ''lon2'' = Some (Fin 0) \<and>
         v ''azi2'' = Some (Fin 0) \<and> v ''azi1'' = None"
proof (cases "arcmode \<or> l_caps l AND DISTANCE_IN AND OUT_ALL \<noteq> 0")
  case False
  with assms show ?thesis
    by (auto simp add: GenPosition_def Let_def)
next
  case True
  from GenPosition_fields [OF assms True] show ?thesis
    by (auto simp add: position_shape_def Let_def DISTANCE_only)
qed

lemma GeodesicLine_zero_arrays:
  "l_C1a (GeodesicLine g lat1 lon1 azi1 0) \<noteq> None"
  "l_C1pa (GeodesicLine g lat1 lon1 azi1 0) \<noteq> None"
  "l_C2a (GeodesicLine g lat1 lon1 azi1 0) \<noteq> None"
  "l_C3a (GeodesicLine g lat1 lon1 azi1 0) \<noteq> None"
  "l_C4a (GeodesicLine g lat1 lon1 azi1 0) \<noteq> None"
  by (simp_all add: GeodesicLine_arrays GeodesicLine_caps mask_defs)

lemma GeodesicLine_zero_consistent:
  "line_consistent (GeodesicLine g lat1 lon1 azi1 0)"
  by (simp add: line_consistent_def GeodesicLine_zero_arrays)

section \<open>A distance query on a line without \<open>DISTANCE_IN\<close>\<close>

text \<open>
  C1.  On a line whose capabilities lack \<open>DISTANCE_IN\<close>, \<open>GenPosition\<close> in distance mode
  returns, for every distance and every output mask, the object with \<open>a12\<close> not-a-number
  and \<open>s12\<close>, \<open>lon2\<close>, \<open>lat2\<close>, \<open>azi2\<close>, \<open>m12\<close>, \<open>M12\<close>, \<open>M21\<close> zero; it returns and
  does not raise.  The line is a value that \<open>GenPosition\<close> only reads, so a later query
  sees the same line: every arc-mode query that returns has \<open>a12\<close> equal to the arc
  length asked for, and on a consistent line every arc-mode query returns.
\<close>

theorem GenPosition_distance_unavailable:
  "l_caps l AND DISTANCE_IN AND OUT_ALL = 0 \<Longrightarrow>
   GenPosition l False s12 outmask =
     Inr [''a12'' \<mapsto> NaN, ''s12'' \<mapsto> Fin 0, ''lon2'' \<mapsto> Fin 0, ''lat2'' \<mapsto> Fin 0,
          ''azi2'' \<mapsto> Fin 0, ''m12'' \<mapsto> Fin 0, ''M12'' \<mapsto> Fin 0, ''M21'' \<mapsto> Fin 0] \<and>
   (\<forall>a12 m v. GenPosition l True a12 m = Inr v \<longrightarrow> v ''a12'' = Some a12) \<and>
   (line_consistent l \<longrightarrow> (\<forall>a12 m. \<exists>v. GenPosition l True a12 m = Inr v))"
  using GenPosition_unavailable [of l s12 outmask] GenPosition_arc_a12 [of l]
    GenPosition_returns [of l True]
  by blast

text \<open>
  A line built by the constructor with the capabilities \<open>LATITUDE\<close> and \<open>LONGITUDE\<close> on
  the WGS84 ellipsoid lacks \<open>DISTANCE_IN\<close> and is consistent.
\<close>

theorem GenPosition_distance_unavailable_witness:
  "case Interface_geodesic of Inl e \<Rightarrow> False | Inr g \<Rightarrow>
     (let l = GeodesicLine g (Fin 40) (Fin 30) (Fin 20) (LATITUDE OR LONGITUDE)
      in l_caps l AND DISTANCE_IN AND OUT_ALL = 0 \<and> line_consistent l \<and>
         GenPosition l False (Fin 1000) ALL_mask =
           Inr [''a12'' \<mapsto> NaN, ''s12'' \<mapsto> Fin 0, ''lon2'' \<mapsto> Fin 0, ''lat2'' \<mapsto> Fin 0,
                ''azi2'' \<mapsto> Fin 0, ''m12'' \<mapsto> Fin 0, ''M12'' \<mapsto> Fin 0, ''M21'' \<mapsto> Fin 0] \<and>
         (\<exists>v. GenPosition l True (Fin 1) ALL_mask = Inr v \<and> v ''a12'' = Some (Fin 1)))"
proof -
  obtain g where g: "Interface_geodesic = Inr g"
    using Interface_geodesic_fields by blast
  define l where "l = GeodesicLine g (Fin 40) (Fin 30) (Fin 20) (LATITUDE OR LONGITUDE)"
  have caps: "l_caps l = LATITUDE OR LONGITUDE OR AZIMUTH"
    by (simp add: l_def GeodesicLine_caps mask_defs)
  have c3: "l_C3a l \<noteq> None"
    unfolding l_def by (simp add: GeodesicLine_arrays GeodesicLine_caps mask_defs)
  have d: "l_caps l AND DISTANCE_IN AND OUT_ALL = 0"
    unfolding caps by (simp add: mask_defs)
  have lc: "line_consistent l"
    unfolding line_consistent_def caps using c3 by (simp add: mask_defs)
  note t = GenPosition_distance_unavailable [OF d, of "Fin 1000" ALL_mask]
  from t lc obtain v where v: "GenPosition l True (Fin 1) ALL_mask = Inr v"
    by blast
  with t have a: "v ''a12'' = Some (Fin 1)"
    by blast
  have "l_caps l AND DISTANCE_IN AND OUT_ALL = 0 \<and> line_consistent l \<and>
         GenPosition l False (Fin 1000) ALL_mask =
           Inr [''a12'' \<mapsto> NaN, ''s12'' \<mapsto> Fin 0, ''lon2'' \<mapsto> Fin 0, ''lat2'' \<mapsto> Fin 0,
                ''azi2'' \<mapsto> Fin 0, ''m12'' \<mapsto> Fin 0, ''M12'' \<mapsto> Fin 0, ''M21'' \<mapsto> Fin 0] \<and>
         (\<exists>v. GenPosition l True (Fin 1) ALL_mask = Inr v \<and> v ''a12'' = Some (Fin 1))"
    using d lc t v a by blast
  then show ?thesis
    unfolding g sum.case Let_def l_def .
qed

section \<open>Mask discipline\<close>

text \<open>
  C7, as amended.  With the output mask \<open>DISTANCE\<close>, \<open>GenInverse\<close> returns an object
  whose \<open>azi1\<close> and \<open>azi2\<close> are zero.  With the output mask \<open>DISTANCE\<close>, every object
  that \<open>GenPosition\<close> returns has \<open>lat2\<close>, \<open>lon2\<close> and \<open>azi2\<close> zero and has no \<open>azi1\<close>
  property at all; on a consistent line the call returns.
\<close>

theorem mask_discipline_DISTANCE:
  "GenInverse g lat1 lon1 lat2 lon2 DISTANCE ''azi1'' = Some (Fin 0) \<and>
   GenInverse g lat1 lon1 lat2 lon2 DISTANCE ''azi2'' = Some (Fin 0) \<and>
   (\<forall>v. GenPosition l arcmode s DISTANCE = Inr v \<longrightarrow>
      v ''lat2'' = Some (Fin 0) \<and> v ''lon2'' = Some (Fin 0) \<and>
      v ''azi2'' = Some (Fin 0) \<and> v ''azi1'' = None) \<and>
   (line_consistent l \<longrightarrow> (\<exists>v. GenPosition l arcmode s DISTANCE = Inr v))"
proof -
  have "GenInverse g lat1 lon1 lat2 lon2 DISTANCE ''azi1'' = Some (Fin 0)"
    by (simp add: GenInverse_def Let_def inverse_output_DISTANCE inverse_solve_frame)
  moreover have "GenInverse g lat1 lon1 lat2 lon2 DISTANCE ''azi2'' = Some (Fin 0)"
    by (simp add: GenInverse_def Let_def inverse_output_DISTANCE inverse_solve_frame)
  ultimately show ?thesis
    using GenPosition_DISTANCE_frame [of l arcmode s] GenPosition_returns [of l arcmode s DISTANCE]
    by blast
qed

text \<open>
  The line built with the capability argument 0 on the WGS84 ellipsoid is consistent.
\<close>

theorem mask_discipline_DISTANCE_witness:
  "case Interface_geodesic of Inl e \<Rightarrow> False | Inr g \<Rightarrow>
     (let l = GeodesicLine g (Fin 40) (Fin 30) (Fin 20) 0
      in line_consistent l \<and>
         GenInverse g (Fin 40) (Fin 30) (Fin 41) (Fin 31) DISTANCE ''azi1'' = Some (Fin 0) \<and>
         GenInverse g (Fin 40) (Fin 30) (Fin 41) (Fin 31) DISTANCE ''azi2'' = Some (Fin 0) \<and>
         (\<exists>v. GenPosition l False (Fin 1000) DISTANCE = Inr v \<and>
           v ''lat2'' = Some (Fin 0) \<and> v ''lon2'' = Some (Fin 0) \<and>
           v ''azi2'' = Some (Fin 0) \<and> v ''azi1'' = None))"
proof -
  obtain g where g: "Interface_geodesic = Inr g"
    using Interface_geodesic_fields by blast
  define l where "l = GeodesicLine g (Fin 40) (Fin 30) (Fin 20) 0"
  have lc: "line_consistent l"
    unfolding l_def by (rule GeodesicLine_zero_consistent)
  note t = mask_discipline_DISTANCE [of g "Fin 40" "Fin 30" "Fin 41" "Fin 31" l False "Fin 1000"]
  have "line_consistent l \<and>
         GenInverse g (Fin 40) (Fin 30) (Fin 41) (Fin 31) DISTANCE ''azi1'' = Some (Fin 0) \<and>
         GenInverse g (Fin 40) (Fin 30) (Fin 41) (Fin 31) DISTANCE ''azi2'' = Some (Fin 0) \<and>
         (\<exists>v. GenPosition l False (Fin 1000) DISTANCE = Inr v \<and>
           v ''lat2'' = Some (Fin 0) \<and> v ''lon2'' = Some (Fin 0) \<and>
           v ''azi2'' = Some (Fin 0) \<and> v ''azi1'' = None)"
    using lc t by blast
  then show ?thesis
    unfolding g sum.case Let_def l_def .
qed

text \<open>
  C7 as stated fails for \<open>azi1\<close>: the object \<open>GenPosition\<close> returns is built from the
  properties \<open>a12\<close>, \<open>s12\<close>, \<open>lon2\<close>, \<open>lat2\<close>, \<open>azi2\<close>, \<open>m12\<close>, \<open>M12\<close>, \<open>M21\<close> and
  never receives \<open>azi1\<close>, so reading \<open>azi1\<close> gives \<open>undefined\<close>, not 0.
\<close>

theorem mask_discipline_counterexample:
  "case Interface_geodesic of Inl e \<Rightarrow> False | Inr g \<Rightarrow>
     (case GenPosition (GeodesicLine g (Fin 40) (Fin 30) (Fin 20) 0) False (Fin 1000) DISTANCE of
        Inl e \<Rightarrow> False
      | Inr v \<Rightarrow> v ''azi1'' = None \<and> v ''azi1'' \<noteq> Some (Fin 0))"
proof -
  obtain g where g: "Interface_geodesic = Inr g"
    using Interface_geodesic_fields by blast
  obtain v where v: "GenPosition (GeodesicLine g (Fin 40) (Fin 30) (Fin 20) 0) False (Fin 1000)
      DISTANCE = Inr v"
    using GenPosition_returns [OF GeodesicLine_zero_consistent] by blast
  from GenPosition_DISTANCE_frame [OF v] have "v ''azi1'' = None"
    by blast
  then show ?thesis
    unfolding g v sum.case by simp
qed

section \<open>A line built with the capability argument 0\<close>

text \<open>
  C10.  The constructor called with \<open>caps = 0\<close> builds a line whose capabilities are
  \<open>ALL\<close>: the union of the eight output flags, containing the five series bits.  All
  five coefficient arrays of the line are set, distance mode is enabled, and every call
  of \<open>GenPosition\<close> on the line returns: in distance mode with the mask \<open>DISTANCE\<close> the
  object has \<open>s12\<close> equal to the distance asked for, and in arc mode \<open>a12\<close> equal to the
  arc length asked for.
\<close>

theorem GeodesicLine_zero_caps:
  "l_caps (GeodesicLine g lat1 lon1 azi1 0) = ALL_mask \<and>
   ALL_mask = LATITUDE OR LONGITUDE OR AZIMUTH OR DISTANCE OR DISTANCE_IN OR
              REDUCEDLENGTH OR GEODESICSCALE OR AREA \<and>
   ALL_mask AND CAP_ALL = CAP_C1 OR CAP_C1p OR CAP_C2 OR CAP_C3 OR CAP_C4 \<and>
   ALL_mask \<noteq> 0 \<and>
   l_C1a (GeodesicLine g lat1 lon1 azi1 0) \<noteq> None \<and>
   l_C1pa (GeodesicLine g lat1 lon1 azi1 0) \<noteq> None \<and>
   l_C2a (GeodesicLine g lat1 lon1 azi1 0) \<noteq> None \<and>
   l_C3a (GeodesicLine g lat1 lon1 azi1 0) \<noteq> None \<and>
   l_C4a (GeodesicLine g lat1 lon1 azi1 0) \<noteq> None \<and>
   l_caps (GeodesicLine g lat1 lon1 azi1 0) AND DISTANCE_IN AND OUT_ALL \<noteq> 0 \<and>
   (\<exists>v. GenPosition (GeodesicLine g lat1 lon1 azi1 0) arcmode s m = Inr v) \<and>
   (\<exists>v. GenPosition (GeodesicLine g lat1 lon1 azi1 0) False s DISTANCE = Inr v \<and>
        v ''s12'' = Some s) \<and>
   (\<exists>v. GenPosition (GeodesicLine g lat1 lon1 azi1 0) True s m = Inr v \<and>
        v ''a12'' = Some s)"
proof -
  let ?l = "GeodesicLine g lat1 lon1 azi1 0"
  have caps: "l_caps ?l = ALL_mask"
    by (simp add: GeodesicLine_caps)
  have din: "l_caps ?l AND DISTANCE_IN AND OUT_ALL \<noteq> 0"
    unfolding caps by (simp add: mask_defs)
  have dout: "(DISTANCE AND (l_caps ?l AND OUT_ALL)) AND DISTANCE \<noteq> 0"
    unfolding caps by (simp add: mask_defs)
  have m1: "ALL_mask = LATITUDE OR LONGITUDE OR AZIMUTH OR DISTANCE OR DISTANCE_IN OR
              REDUCEDLENGTH OR GEODESICSCALE OR AREA"
    by (simp add: mask_defs)
  have m2: "ALL_mask AND CAP_ALL = CAP_C1 OR CAP_C1p OR CAP_C2 OR CAP_C3 OR CAP_C4"
    by (simp add: mask_defs)
  have m3: "ALL_mask \<noteq> 0"
    by (simp add: mask_defs)
  have r: "\<exists>v. GenPosition ?l am x y = Inr v" for am x y
    by (rule GenPosition_returns [OF GeodesicLine_zero_consistent])
  obtain v1 where v1: "GenPosition ?l False s DISTANCE = Inr v1"
    using r by blast
  have s1: "v1 ''s12'' = Some s"
    by (rule GenPosition_distance_s12 [OF v1 din dout])
  obtain v2 where v2: "GenPosition ?l True s m = Inr v2"
    using r by blast
  have s2: "v2 ''a12'' = Some s"
    by (rule GenPosition_arc_a12 [OF v2])
  show ?thesis
    using caps m1 m2 m3 GeodesicLine_zero_arrays [of g lat1 lon1 azi1] din r [of arcmode s m]
      v1 s1 v2 s2
    by blast
qed

section \<open>The Clenshaw summation of \<open>SinCosSeries\<close>\<close>

text \<open>
  One round of the loop keeps \<open>y0 * ph k - y1 * ph (k - 1)\<close> plus the terms already
  consumed, for every \<open>ph\<close> with \<open>ar * ph j = ph (j + 1) + ph (j - 1)\<close>.
\<close>

lemma aget_map_Fin: "k < length cs \<Longrightarrow> aget (map Fin cs) k = Fin (cs ! k)"
  by (simp add: aget_def)

lemma SinCosSeries_loop_Fin:
  fixes a :: real and ph :: "int \<Rightarrow> real"
  assumes rec: "\<And>j. a * ph j = ph (j + 1) + ph (j - 1)"
  shows "2 * m \<le> k \<Longrightarrow> k \<le> length cs \<Longrightarrow>
    \<exists>z0 z1. SinCosSeries_loop (Fin a) (map Fin cs) m k (Fin y0) (Fin y1) = (Fin z0, Fin z1) \<and>
       z0 * ph (int k - 2 * int m) - z1 * ph (int k - 2 * int m - 1) =
       y0 * ph (int k) - y1 * ph (int k - 1) + (\<Sum>j = k - 2 * m..<k. cs ! j * ph (int j))"
proof (induction m arbitrary: k y0 y1)
  case 0
  then show ?case by simp
next
  case (Suc m)
  from Suc.prems obtain k' where k: "k = Suc (Suc k')"
    by (cases k; cases "k - 1") auto
  define c1 where "c1 = cs ! Suc k'"
  define c2 where "c2 = cs ! k'"
  define w1 where "w1 = a * y0 - y1 + c1"
  define w0 where "w0 = a * w1 - y0 + c2"
  define K where "K = int k'"
  have step: "SinCosSeries_loop (Fin a) (map Fin cs) (Suc m) k (Fin y0) (Fin y1) =
      SinCosSeries_loop (Fin a) (map Fin cs) m k' (Fin w0) (Fin w1)"
    using Suc.prems by (simp add: k Let_def aget_map_Fin w0_def w1_def c1_def c2_def)
  have "2 * m \<le> k'" "k' \<le> length cs"
    using Suc.prems by (simp_all add: k)
  from Suc.IH [OF this, of w0 w1] obtain z0 z1 where
    z: "SinCosSeries_loop (Fin a) (map Fin cs) m k' (Fin w0) (Fin w1) = (Fin z0, Fin z1)"
    and e: "z0 * ph (K - 2 * int m) - z1 * ph (K - 2 * int m - 1) =
       w0 * ph K - w1 * ph (K - 1) + (\<Sum>j = k' - 2 * m..<k'. cs ! j * ph (int j))"
    unfolding K_def by blast
  have r1: "a * ph K - ph (K - 1) = ph (K + 1)"
    using rec [of K] by simp
  have r2: "a * ph (K + 1) - ph K = ph (K + 2)"
    using rec [of "K + 1"] by (simp add: ac_simps)
  have "w0 * ph K - w1 * ph (K - 1) = w1 * (a * ph K - ph (K - 1)) - y0 * ph K + c2 * ph K"
    by (simp add: w0_def algebra_simps)
  also have "\<dots> = w1 * ph (K + 1) - y0 * ph K + c2 * ph K"
    unfolding r1 ..
  also have "\<dots> = y0 * (a * ph (K + 1) - ph K) - y1 * ph (K + 1) + c1 * ph (K + 1) + c2 * ph K"
    by (simp add: w1_def algebra_simps)
  also have "\<dots> = y0 * ph (K + 2) - y1 * ph (K + 1) + c1 * ph (K + 1) + c2 * ph K"
    unfolding r2 ..
  finally have w: "w0 * ph K - w1 * ph (K - 1) =
      y0 * ph (K + 2) - y1 * ph (K + 1) + c1 * ph (K + 1) + c2 * ph K" .
  have s: "(\<Sum>j = k - 2 * Suc m..<k. cs ! j * ph (int j)) =
      (\<Sum>j = k' - 2 * m..<k'. cs ! j * ph (int j)) + c2 * ph K + c1 * ph (K + 1)"
  proof -
    have "\<not> k' < k' - 2 * m" "\<not> Suc k' < k' - 2 * m"
      by arith+
    then show ?thesis
      by (simp add: k c1_def c2_def K_def add.commute)
  qed
  have i1: "int k - 2 * int (Suc m) = K - 2 * int m"
    by (simp add: k K_def)
  have i2: "int k - 1 = K + 1"
    by (simp add: k K_def)
  have i3: "int k = K + 2"
    by (simp add: k K_def)
  have "z0 * ph (int k - 2 * int (Suc m)) - z1 * ph (int k - 2 * int (Suc m) - 1) =
       y0 * ph (int k) - y1 * ph (int k - 1) + (\<Sum>j = k - 2 * Suc m..<k. cs ! j * ph (int j))"
    unfolding s i1 i2 unfolding i3 using e w by simp
  with step z show ?case
    by simp
qed

lemma sin_recurrence:
  "2 * (cos x - sin x) * (cos x + sin x) * sin (2 * real_of_int j * x) =
   sin (2 * real_of_int (j + 1) * x) + sin (2 * real_of_int (j - 1) * x)"
proof -
  have a: "2 * real_of_int (j + 1) * x = 2 * real_of_int j * x + 2 * x"
    and b: "2 * real_of_int (j - 1) * x = 2 * real_of_int j * x - 2 * x"
    by (simp_all add: algebra_simps)
  have c: "(cos x - sin x) * (cos x + sin x) = cos (2 * x)"
    unfolding cos_double power2_eq_square by (simp add: algebra_simps)
  have "2 * (cos x - sin x) * (cos x + sin x) * sin (2 * real_of_int j * x) =
      2 * cos (2 * x) * sin (2 * real_of_int j * x)"
    by (simp only: c [symmetric] mult.assoc)
  also have "\<dots> = sin (2 * real_of_int j * x + 2 * x) + sin (2 * real_of_int j * x - 2 * x)"
    by (simp add: sin_add sin_diff)
  finally show ?thesis
    unfolding a b .
qed

lemma cos_recurrence:
  "2 * (cos x - sin x) * (cos x + sin x) * cos ((2 * real_of_int j + 1) * x) =
   cos ((2 * real_of_int (j + 1) + 1) * x) + cos ((2 * real_of_int (j - 1) + 1) * x)"
proof -
  have a: "(2 * real_of_int (j + 1) + 1) * x = (2 * real_of_int j + 1) * x + 2 * x"
    and b: "(2 * real_of_int (j - 1) + 1) * x = (2 * real_of_int j + 1) * x - 2 * x"
    by (simp_all add: algebra_simps)
  have c: "(cos x - sin x) * (cos x + sin x) = cos (2 * x)"
    unfolding cos_double power2_eq_square by (simp add: algebra_simps)
  have "2 * (cos x - sin x) * (cos x + sin x) * cos ((2 * real_of_int j + 1) * x) =
      2 * cos (2 * x) * cos ((2 * real_of_int j + 1) * x)"
    by (simp only: c [symmetric] mult.assoc)
  also have "\<dots> = cos ((2 * real_of_int j + 1) * x + 2 * x) + cos ((2 * real_of_int j + 1) * x - 2 * x)"
    by (simp add: cos_add cos_diff)
  finally show ?thesis
    unfolding a b .
qed

lemma SinCosSeries_ar:
  "Fin 2 * (Fin (cos x) - Fin (sin x)) * (Fin (cos x) + Fin (sin x)) =
   Fin (2 * (cos x - sin x) * (cos x + sin x))"
  by simp

lemma SinCosSeries_sin:
  assumes n: "n < length cs"
  shows "SinCosSeries True (Fin (sin x)) (Fin (cos x)) (map Fin cs) n =
         Fin (\<Sum>i = 1..n. cs ! i * sin (2 * real i * x))"
proof -
  define a where "a = 2 * (cos x - sin x) * (cos x + sin x)"
  define ph where "ph j = sin (2 * real_of_int j * x)" for j :: int
  define m where "m = n div 2"
  define k where "k = (if odd n then n else n + 1)"
  define y0 where "y0 = (if odd n then cs ! n else 0)"
  have rec: "a * ph j = ph (j + 1) + ph (j - 1)" for j
    unfolding a_def ph_def by (rule sin_recurrence)
  have k1: "k - 2 * m = 1"
    unfolding k_def m_def by (cases "odd n") (auto elim: oddE)
  have k2: "int k - 2 * int m = 1"
    using k1 by linarith
  have b: "2 * m \<le> k" "k \<le> length cs"
    using n k1 by (simp_all add: k_def)
  from SinCosSeries_loop_Fin [of a ph m k cs y0 0, OF rec b] obtain z0 z1 where
    z: "SinCosSeries_loop (Fin a) (map Fin cs) m k (Fin y0) (Fin 0) = (Fin z0, Fin z1)"
    and e: "z0 * ph 1 - z1 * ph 0 = y0 * ph (int k) + (\<Sum>j = 1..<k. cs ! j * ph (int j))"
    unfolding k1 k2 by auto
  have s: "y0 * ph (int k) + (\<Sum>j = 1..<k. cs ! j * ph (int j)) =
      (\<Sum>i = 1..n. cs ! i * sin (2 * real i * x))"
  proof (cases "odd n")
    case True
    then have "1 \<le> n" by (auto elim: oddE)
    then have "{1..n} = insert n {1..<n}" by auto
    then show ?thesis
      using True by (simp add: k_def y0_def ph_def)
  next
    case False
    have "{1..<n + 1} = {1..n}" by auto
    with False show ?thesis
      by (simp add: k_def y0_def ph_def del: One_nat_def)
  qed
  have p: "ph 0 = 0" "ph 1 = 2 * sin x * cos x"
    by (simp_all add: ph_def sin_double)
  have y: "(if odd n then aget (map Fin cs) (n + 1 - 1) else Fin 0) = Fin y0"
    using n by (simp add: y0_def aget_map_Fin)
  have kk: "(if odd n then n + 1 - 1 else n + 1) = k"
    by (simp add: k_def)
  have "SinCosSeries True (Fin (sin x)) (Fin (cos x)) (map Fin cs) n =
      Fin (2 * sin x * cos x * z0)"
    unfolding SinCosSeries_def Let_def if_True SinCosSeries_ar a_def [symmetric] y kk
      m_def [symmetric] z
    by simp
  also have "2 * sin x * cos x * z0 = (\<Sum>i = 1..n. cs ! i * sin (2 * real i * x))"
    using e s p by (simp add: mult.commute)
  finally show ?thesis .
qed

lemma SinCosSeries_cos:
  assumes n: "n \<le> length cs"
  shows "SinCosSeries False (Fin (sin x)) (Fin (cos x)) (map Fin cs) n =
         Fin (\<Sum>i<n. cs ! i * cos ((2 * real i + 1) * x))"
proof -
  define a where "a = 2 * (cos x - sin x) * (cos x + sin x)"
  define ph where "ph j = cos ((2 * real_of_int j + 1) * x)" for j :: int
  define m where "m = n div 2"
  define k where "k = (if odd n then n - 1 else n)"
  define y0 where "y0 = (if odd n then cs ! (n - 1) else 0)"
  have rec: "a * ph j = ph (j + 1) + ph (j - 1)" for j
    unfolding a_def ph_def by (rule cos_recurrence)
  have k0: "k = 2 * m"
    unfolding k_def m_def by (cases "odd n") (auto elim: oddE)
  have k1: "k - 2 * m = 0"
    using k0 by simp
  have k2: "int k - 2 * int m = 0"
    using k0 by simp
  have "k \<le> n"
    by (simp add: k_def)
  with n k0 have b: "2 * m \<le> k" "k \<le> length cs"
    by linarith+
  from SinCosSeries_loop_Fin [of a ph m k cs y0 0, OF rec b] obtain z0 z1 where
    z: "SinCosSeries_loop (Fin a) (map Fin cs) m k (Fin y0) (Fin 0) = (Fin z0, Fin z1)"
    and e: "z0 * ph 0 - z1 * ph (- 1) = y0 * ph (int k) + (\<Sum>j = 0..<k. cs ! j * ph (int j))"
    unfolding k1 k2 by auto
  have s: "y0 * ph (int k) + (\<Sum>j = 0..<k. cs ! j * ph (int j)) =
      (\<Sum>i<n. cs ! i * cos ((2 * real i + 1) * x))"
  proof (cases "odd n")
    case True
    then obtain n' where n': "n = Suc n'" by (cases n) auto
    with True show ?thesis
      by (simp add: k_def y0_def ph_def atLeast0LessThan)
  next
    case False
    then show ?thesis
      by (simp add: k_def y0_def ph_def atLeast0LessThan)
  qed
  have p: "ph 0 = cos x" "ph (- 1) = cos x"
    by (simp_all add: ph_def)
  have y: "(if odd n then aget (map Fin cs) (n + 0 - 1) else Fin 0) = Fin y0"
    using n by (cases n) (simp_all add: y0_def aget_map_Fin)
  have kk: "(if odd n then n + 0 - 1 else n + 0) = k"
    by (simp add: k_def)
  have "SinCosSeries False (Fin (sin x)) (Fin (cos x)) (map Fin cs) n =
      Fin (cos x * (z0 - z1))"
    unfolding SinCosSeries_def Let_def if_False SinCosSeries_ar a_def [symmetric] y kk
      m_def [symmetric] z
    by simp
  also have "cos x * (z0 - z1) = (\<Sum>i<n. cs ! i * cos ((2 * real i + 1) * x))"
    using e s p by (simp add: algebra_simps)
  finally show ?thesis .
qed

text \<open>
  C9, as amended.  Called with \<open>sinx = sin x\<close> and \<open>cosx = cos x\<close> on an array of finite
  coefficients, \<open>SinCosSeries\<close> with \<open>sinp\<close> true returns the sum over \<open>i = 1..n\<close> of
  \<open>c[i] * sin (2 * i * x)\<close>, provided the array has the index \<open>n\<close>; with \<open>sinp\<close> false it
  returns the sum over \<open>i = 0..n - 1\<close> of \<open>c[i] * cos ((2 * i + 1) * x)\<close>, provided the
  array has \<open>n\<close> elements.  The angle multiples are the even ones and the odd ones of
  \<open>x\<close>, not \<open>i * x\<close>.
\<close>

theorem SinCosSeries_Clenshaw:
  "(n < length cs \<longrightarrow>
      SinCosSeries True (Fin (sin x)) (Fin (cos x)) (map Fin cs) n =
      Fin (\<Sum>i = 1..n. cs ! i * sin (2 * real i * x))) \<and>
   (n \<le> length cs \<longrightarrow>
      SinCosSeries False (Fin (sin x)) (Fin (cos x)) (map Fin cs) n =
      Fin (\<Sum>i<n. cs ! i * cos ((2 * real i + 1) * x)))"
  using SinCosSeries_sin [of n cs x] SinCosSeries_cos [of n cs x] by blast

text \<open>The two sums at order 2, for the coefficients 3, 5, 7 and the angle \<open>\<pi> / 6\<close>.\<close>

theorem SinCosSeries_Clenshaw_witness:
  "(2::nat) < length [3, 5, 7::real] \<and>
   SinCosSeries True (Fin (sin (pi / 6))) (Fin (cos (pi / 6))) (map Fin [3, 5, 7]) 2 =
     Fin (\<Sum>i = 1..2. [3, 5, 7] ! i * sin (2 * real i * (pi / 6))) \<and>
   (2::nat) \<le> length [3, 5, 7::real] \<and>
   SinCosSeries False (Fin (sin (pi / 6))) (Fin (cos (pi / 6))) (map Fin [3, 5, 7]) 2 =
     Fin (\<Sum>i<2. [3, 5, 7] ! i * cos ((2 * real i + 1) * (pi / 6)))"
proof -
  note t = SinCosSeries_Clenshaw [of 2 "[3, 5, 7]" "pi / 6"]
  have l1: "(2::nat) < length [3, 5, 7::real]"
    by simp
  have l2: "(2::nat) \<le> length [3, 5, 7::real]"
    by simp
  from t l1 l2 show ?thesis
    by blast
qed

text \<open>
  C9 as stated fails: at \<open>x = \<pi> / 2\<close>, order 1 and coefficient \<open>c[1] = 1\<close> the function
  returns \<open>sin \<pi> = 0\<close>, while the sum of \<open>c[i] * sin (i * x)\<close> is \<open>sin (\<pi> / 2) = 1\<close>.
\<close>

theorem SinCosSeries_counterexample:
  "SinCosSeries True (Fin (sin (pi / 2))) (Fin (cos (pi / 2))) [Fin 0, Fin 1] 1 = Fin 0 \<and>
   (\<Sum>i = 1..(1::nat). [0, 1] ! i * sin (real i * (pi / 2))) = (1::real)"
  by (simp add: SinCosSeries_def Let_def aget_def)

section \<open>Two points on the equator\<close>




lemma AngRound_Fin_small:
  "AngRound (Fin (1 / 2 ^ 57)) = Fin (1 / 2 ^ 57)"
  "AngRound (Fin (3 / 2 ^ 58)) = Fin (2 / 2 ^ 57)"
  "AngRound (Fin (1 / 2 ^ 58)) = Fin 0"
  "AngRound (Fin (- (1 / 2 ^ 58))) = Fin 0"
  "AngRound (Fin (1 / 2 ^ 60)) = Fin 0"
  by (simp_all add: AngRound_def Let_def round_half_even_def)















section \<open>The two orders of the points in \<open>GenInverse\<close>\<close>

























subsection \<open>Two antipodal points on the equator\<close>















end
